theory Spec2Isabelle
  imports Main "HOL-Library.Sublist" "HOL-Library.Multiset"
begin

section \<open>Data model\<close>

text \<open>
  The backend keeps two tables: the career catalog \<^verbatim>\<open>careers\<close>, read from
  \<^verbatim>\<open>careers.json\<close> when the module is loaded, and the dictionary
  \<^verbatim>\<open>SKILL_ROADMAPS\<close> of \<^verbatim>\<open>skill_roadmaps.py\<close>. The catalog file is not part of
  the sources, so every operation takes the catalog as an argument.

  A catalog entry is a JSON object. The handlers read the keys \<^verbatim>\<open>career\<close>,
  \<^verbatim>\<open>interests\<close>, \<^verbatim>\<open>required_skills\<close> and \<^verbatim>\<open>difficulty\<close> by subscript, so
  these are plain fields; the other keys are read with \<^verbatim>\<open>.get\<close> and a default, so
  they are optional (\<open>None\<close> is an absent key).
\<close>

record career_record =
  career :: string
  c_interests :: "string list"
  required_skills :: "string list"
  difficulty :: string
  branch :: "string list option"
  tools :: "string list option"
  certifications :: "string list option"
  exams :: "string list option"
  future_trends :: "string list option"
  startup_guidance :: "string option"

text \<open>
  The request body of the four matching endpoints is a JSON object (a Python
  \<^verbatim>\<open>dict\<close>) in which any key may be absent. Values that are present have the types
  of the data model: names, career names and domain codes are strings, interests and
  skills are lists of strings.
\<close>

record request =
  name :: "string option"
  interests :: "string list option"
  current_skills :: "string list option"
  target_career :: "string option"
  domain :: "string option"

text \<open>Exceptions that leave a handler.\<close>

datatype error = KeyError string | AttributeError

text \<open>
  One element of \<^verbatim>\<open>recommended_careers\<close>. The quiz endpoint emits the first ten
  keys; the direct endpoint adds \<^verbatim>\<open>startup_guidance\<close>.
\<close>

record recommendation =
  r_career :: string
  interest_match_score :: nat
  missing_skills :: "string list"
  r_difficulty :: string
  r_branch :: "string list"
  r_required_skills :: "string list"
  r_tools :: "string list"
  r_certifications :: "string list"
  r_exams :: "string list"
  r_future_trends :: "string list"

record direct_recommendation = recommendation +
  r_startup_guidance :: "string option"

record recommend_response =
  resp_student :: string
  recommended_careers :: "direct_recommendation list"

record quiz_response =
  q_domain :: string
  domain_name :: string
  q_recommended_careers :: "recommendation list"

section \<open>Python primitives\<close>

text \<open>\<^verbatim>\<open>d.get(key, default)\<close> on an optional field.\<close>

definition get_default :: "'a option \<Rightarrow> 'a \<Rightarrow> 'a" where
  "get_default v d = (case v of None \<Rightarrow> d | Some x \<Rightarrow> x)"

text \<open>
  \<^verbatim>\<open>len(set(a).intersection(set(b)))\<close>: the number of distinct strings that occur in
  both lists.
\<close>

definition interest_match_of :: "string list \<Rightarrow> string list \<Rightarrow> nat" where
  "interest_match_of a b = card (set a \<inter> set b)"

text \<open>
  \<^verbatim>\<open>list(set(required) - set(current))\<close>: the required skills that are not current
  skills, each once. Python leaves the iteration order of a set unspecified (for strings
  it changes with the hash seed of the process); the model lists the elements in the
  order of their first occurrence in \<open>required\<close>, and everything proved below reads
  the result through \<open>set\<close> and \<open>distinct\<close> only.
\<close>

definition set_difference_list :: "string list \<Rightarrow> string list \<Rightarrow> string list" where
  "set_difference_list required current = remdups (filter (\<lambda>s. s \<notin> set current) required)"

text \<open>
  \<^verbatim>\<open>xs.sort(key=f, reverse=True)\<close>. Python's sort is stable; with
  \<^verbatim>\<open>reverse=True\<close> the list is reversed, sorted stably by ascending key and reversed
  again, so that elements with equal keys keep their original order. The stable
  insertion sort \<open>sort_key\<close> stands for the stable sort.
\<close>

definition sort_reverse :: "('a \<Rightarrow> nat) \<Rightarrow> 'a list \<Rightarrow> 'a list" where
  "sort_reverse f xs = rev (sort_key f (rev xs))"

section \<open>Matcher: \<^verbatim>\<open>/recommend-career\<close> and \<^verbatim>\<open>/quiz-recommend-career\<close>\<close>

definition direct_entry ::
  "career_record \<Rightarrow> nat \<Rightarrow> string list \<Rightarrow> direct_recommendation" where
  "direct_entry c interest_match skills =
     \<lparr> r_career = career c,
       interest_match_score = interest_match,
       missing_skills = set_difference_list (required_skills c) skills,
       r_difficulty = difficulty c,
       r_branch = get_default (branch c) [],
       r_required_skills = required_skills c,
       r_tools = get_default (tools c) [],
       r_certifications = get_default (certifications c) [],
       r_exams = get_default (exams c) [],
       r_future_trends = get_default (future_trends c) [],
       r_startup_guidance = startup_guidance c \<rparr>"

text \<open>
  The loop of \<^verbatim>\<open>recommend_career\<close> over the catalog. \<^verbatim>\<open>student["interests"]\<close> is
  read in every iteration and \<^verbatim>\<open>student["current_skills"]\<close> in every iteration with
  a positive match; an absent key raises \<^verbatim>\<open>KeyError\<close> there.
\<close>

fun recommend_loop :: "request \<Rightarrow> career_record list \<Rightarrow> error + direct_recommendation list" where
  "recommend_loop student [] = Inr []"
| "recommend_loop student (c # cs) =
     (case interests student of
        None \<Rightarrow> Inl (KeyError ''interests'')
      | Some wanted \<Rightarrow>
          let interest_match = interest_match_of wanted (c_interests c) in
          if interest_match > 0 then
            (case current_skills student of
               None \<Rightarrow> Inl (KeyError ''current_skills'')
             | Some skills \<Rightarrow>
                 (case recommend_loop student cs of
                    Inl e \<Rightarrow> Inl e
                  | Inr recommendations \<Rightarrow>
                      Inr (direct_entry c interest_match skills # recommendations)))
          else recommend_loop student cs)"

definition recommend_career :: "career_record list \<Rightarrow> request \<Rightarrow> error + recommend_response" where
  "recommend_career careers student =
     (case recommend_loop student careers of
        Inl e \<Rightarrow> Inl e
      | Inr recommendations \<Rightarrow>
          (case name student of
             None \<Rightarrow> Inl (KeyError ''name'')
           | Some n \<Rightarrow>
               Inr \<lparr> resp_student = n,
                     recommended_careers =
                       take 3 (sort_reverse interest_match_score recommendations) \<rparr>))"

text \<open>The quiz endpoint: the interests come from a fixed table indexed by the domain code.\<close>

definition technical_interests :: "string list" where
  "technical_interests =
     [''Programming'', ''AI'', ''Technology'', ''Data'', ''Cloud'', ''Security'',
      ''Automation'', ''Robotics'', ''IoT'', ''Embedded Systems'', ''Software'',
      ''Web Development'', ''Machine Learning'', ''Computer Vision'',
      ''Networking'', ''Blockchain'', ''Quantum Computing'']"

definition domain_interests :: "(string \<times> string list) list" where
  "domain_interests =
     [(''T'', technical_interests),
      (''C'', [''Design'', ''Media'', ''Animation'', ''Gaming'', ''Creative'',
               ''Art'', ''Visual'', ''UX'', ''UI'', ''Graphics'', ''Multimedia'',
               ''Video'', ''Audio'', ''Photography'', ''Content Creation'']),
      (''B'', [''Management'', ''Business'', ''Sales'', ''Marketing'', ''Finance'',
               ''Entrepreneurship'', ''Product'', ''Strategy'', ''Operations'',
               ''Consulting'', ''Project Management'', ''Leadership'', ''Planning'']),
      (''S'', [''Education'', ''Healthcare'', ''Community'', ''Counseling'', ''Social'',
               ''Teaching'', ''Training'', ''Wellness'', ''Human Services'',
               ''Non-profit'', ''Public Health'', ''Clinical'', ''Rehabilitation'']),
      (''R'', [''Research'', ''Science'', ''Analysis'', ''Investigation'',
               ''Data Analysis'', ''Statistics'', ''Academic'', ''Theoretical'',
               ''Experimental'', ''Scientific'', ''Genomics'', ''Physics''])]"

definition domain_names :: "(string \<times> string) list" where
  "domain_names =
     [(''T'', ''Technical''), (''C'', ''Creative''), (''B'', ''Business''),
      (''S'', ''Social''), (''R'', ''Research'')]"

definition quiz_entry :: "career_record \<Rightarrow> nat \<Rightarrow> string list \<Rightarrow> recommendation" where
  "quiz_entry c interest_match skills =
     \<lparr> r_career = career c,
       interest_match_score = interest_match,
       missing_skills = set_difference_list (required_skills c) skills,
       r_difficulty = difficulty c,
       r_branch = get_default (branch c) [],
       r_required_skills = required_skills c,
       r_tools = get_default (tools c) [],
       r_certifications = get_default (certifications c) [],
       r_exams = get_default (exams c) [],
       r_future_trends = get_default (future_trends c) [] \<rparr>"

fun quiz_loop :: "string list \<Rightarrow> request \<Rightarrow> career_record list \<Rightarrow> recommendation list" where
  "quiz_loop relevant_interests data [] = []"
| "quiz_loop relevant_interests data (c # cs) =
     (let interest_match = interest_match_of (c_interests c) relevant_interests in
      if interest_match > 0 then
        quiz_entry c interest_match (get_default (current_skills data) [])
          # quiz_loop relevant_interests data cs
      else quiz_loop relevant_interests data cs)"

definition quiz_recommend_career :: "career_record list \<Rightarrow> request \<Rightarrow> quiz_response" where
  "quiz_recommend_career careers data =
     (let dom_code = get_default (domain data) '''';
          relevant_interests =
            get_default (map_of domain_interests dom_code) technical_interests;
          recommendations = quiz_loop relevant_interests data careers
      in \<lparr> q_domain = dom_code,
            domain_name = get_default (map_of domain_names dom_code) ''General'',
            q_recommended_careers =
              take 5 (sort_reverse interest_match_score recommendations) \<rparr>)"

section \<open>Skill gap: \<^verbatim>\<open>/skill-gap\<close>\<close>

text \<open>
  The handler starts from the empty dictionary and, at every catalog entry whose name
  equals the target, stores the keys \<^verbatim>\<open>career\<close> and \<^verbatim>\<open>missing_skills\<close>. The result
  dictionary is a record of two optional keys; \<^verbatim>\<open>{}\<close> has neither.
\<close>

record skill_gap_result =
  sg_career :: "string option"
  sg_missing_skills :: "string list option"

definition empty_result :: skill_gap_result where
  "empty_result = \<lparr> sg_career = None, sg_missing_skills = None \<rparr>"

fun skill_gap_loop ::
  "request \<Rightarrow> career_record list \<Rightarrow> skill_gap_result \<Rightarrow> error + skill_gap_result" where
  "skill_gap_loop student [] result = Inr result"
| "skill_gap_loop student (c # cs) result =
     (if Some (career c) = target_career student then
        (case current_skills student of
           None \<Rightarrow> Inl (KeyError ''current_skills'')
         | Some skills \<Rightarrow>
             skill_gap_loop student cs
               (result\<lparr> sg_career := Some (career c),
                        sg_missing_skills :=
                          Some (set_difference_list (required_skills c) skills) \<rparr>))
      else skill_gap_loop student cs result)"

definition skill_gap :: "career_record list \<Rightarrow> request \<Rightarrow> error + skill_gap_result" where
  "skill_gap careers student = skill_gap_loop student careers empty_result"

section \<open>Roadmap builder: \<^verbatim>\<open>/learning-roadmap\<close>\<close>

record roadmap_entry =
  beginner :: "string list"
  intermediate :: "string list"
  advanced :: "string list"

text \<open>The dictionary of \<^verbatim>\<open>skill_roadmaps.py\<close>, in the order of the source.\<close>

definition SKILL_ROADMAPS :: "(string \<times> roadmap_entry) list" where
  "SKILL_ROADMAPS =
     [
      (''Python'',
       \<lparr> beginner = [''Syntax, variables, data types'', ''Loops and conditionals'', ''Functions''],
         intermediate = [''Object-Oriented Programming'', ''Working with files'', ''Using libraries like NumPy, Pandas''],
         advanced = [''Build real-world projects'', ''Performance optimization'', ''Interview-level problem solving''] \<rparr>),
      (''Data Structures'',
       \<lparr> beginner = [''Arrays and strings'', ''Basic recursion''],
         intermediate = [''Linked lists, stacks, queues'', ''Trees and hash maps''],
         advanced = [''Graphs'', ''Competitive programming problems''] \<rparr>),
      (''Algorithms'',
       \<lparr> beginner = [''Sorting basics'', ''Searching techniques''],
         intermediate = [''Greedy algorithms'', ''Divide and conquer''],
         advanced = [''Dynamic programming'', ''Advanced graph algorithms''] \<rparr>),
      (''SQL'',
       \<lparr> beginner = [''SELECT, INSERT, UPDATE'', ''WHERE clause''],
         intermediate = [''JOINs'', ''Subqueries''],
         advanced = [''Query optimization'', ''Indexing''] \<rparr>),
      (''Machine Learning'',
       \<lparr> beginner = [''What is ML'', ''Supervised vs Unsupervised learning''],
         intermediate = [''Regression and classification'', ''Model evaluation''],
         advanced = [''End-to-end ML projects'', ''Model deployment''] \<rparr>),
      (''Deep Learning'',
       \<lparr> beginner = [''Neural networks basics'', ''Activation functions''],
         intermediate = [''CNNs and RNNs'', ''Training models''],
         advanced = [''Transformers'', ''Research papers''] \<rparr>),
      (''Networking'',
       \<lparr> beginner = [''OSI model'', ''IP addressing''],
         intermediate = [''TCP/IP'', ''Routing and switching''],
         advanced = [''Network security'', ''Enterprise networking''] \<rparr>)
     ]"

record roadmap_result =
  rm_career :: "string option"
  rm_missing_skills :: "string list"
  learning_roadmap_of :: "string \<rightharpoonup> roadmap_entry"

datatype roadmap_response = Roadmap roadmap_result | Error_payload string

text \<open>
  The inner loop fills the dictionary \<^verbatim>\<open>roadmap\<close>, one key per missing skill: the
  table's entry when the table has the skill, the three one-item lists otherwise.
\<close>

fun roadmap_loop ::
  "(string \<times> roadmap_entry) list \<Rightarrow> string list \<Rightarrow> (string \<rightharpoonup> roadmap_entry)
     \<Rightarrow> (string \<rightharpoonup> roadmap_entry)" where
  "roadmap_loop roadmaps [] roadmap = roadmap"
| "roadmap_loop roadmaps (skill # skills) roadmap =
     roadmap_loop roadmaps skills
       (case map_of roadmaps skill of
          Some entry \<Rightarrow> roadmap(skill \<mapsto> entry)
        | None \<Rightarrow>
            roadmap(skill \<mapsto>
              \<lparr> beginner = [''Learn basics of '' @ skill],
                intermediate = [''Practice '' @ skill],
                advanced = [''Build projects using '' @ skill] \<rparr>))"

text \<open>
  The outer loop returns at the first catalog entry whose name equals the target;
  when the catalog has none, the handler returns the error dictionary.
\<close>

fun learning_roadmap ::
  "career_record list \<Rightarrow> (string \<times> roadmap_entry) list \<Rightarrow> request \<Rightarrow> roadmap_response" where
  "learning_roadmap [] roadmaps student = Error_payload ''Career not found''"
| "learning_roadmap (c # cs) roadmaps student =
     (if Some (career c) = target_career student then
        (let missing = set_difference_list (required_skills c)
                         (get_default (current_skills student) [])
         in Roadmap \<lparr> rm_career = target_career student,
                      rm_missing_skills = missing,
                      learning_roadmap_of = roadmap_loop roadmaps missing Map.empty \<rparr>)
      else learning_roadmap cs roadmaps student)"

section \<open>Chat responder: the rule-based fallback of \<^verbatim>\<open>/career-chat\<close>\<close>

text \<open>
  The body of \<^verbatim>\<open>/career-chat\<close> is a JSON object as well. The responder calls the
  string method \<^verbatim>\<open>lower\<close> on the values of \<^verbatim>\<open>question\<close> and \<^verbatim>\<open>career\<close>, so for
  these two keys the model distinguishes an absent key (\<open>None\<close>), the JSON value
  \<^verbatim>\<open>null\<close> (Python's \<^verbatim>\<open>None\<close>) and a string. \<^verbatim>\<open>missing_skills\<close> is an optional
  list of strings. The keys \<^verbatim>\<open>education\<close>, \<^verbatim>\<open>interests\<close> and \<^verbatim>\<open>current_skills\<close>
  only enter the prompt of the external service; the responder does not use them.
\<close>

datatype json_text = JNull | JString string

record chat_data =
  question :: "json_text option"
  chat_career :: "json_text option"
  chat_missing_skills :: "string list option"

text \<open>
  \<^verbatim>\<open>str.lower\<close>. A string is the sequence of the bytes of its UTF-8 encoding. The
  letters \<^verbatim>\<open>A\<close> to \<^verbatim>\<open>Z\<close> are mapped to \<^verbatim>\<open>a\<close> to \<^verbatim>\<open>z\<close>. Two characters
  outside ASCII have a lower case with an ASCII letter in it: the Kelvin sign
  (U+212A, bytes E2 84 AA) becomes \<^verbatim>\<open>k\<close>, and the capital I with dot above (U+0130,
  bytes C4 B0) becomes \<^verbatim>\<open>i\<close> followed by the combining dot above (U+0307, bytes
  CC 87). Every other character outside ASCII is kept as it is: Python replaces some
  of them by other characters outside ASCII, and the responder only tests the
  lower-cased strings for occurrences of its ASCII keywords and keys.
\<close>

definition lower_char :: "char \<Rightarrow> char" where
  "lower_char c =
     (case map_of (zip ''ABCDEFGHIJKLMNOPQRSTUVWXYZ'' ''abcdefghijklmnopqrstuvwxyz'') c of
        Some l \<Rightarrow> l
      | None \<Rightarrow> c)"

definition kelvin_sign :: string where
  "kelvin_sign = [CHR 0xE2, CHR 0x84, CHR 0xAA]"

definition dotted_capital_i :: string where
  "dotted_capital_i = [CHR 0xC4, CHR 0xB0]"

fun lower :: "string \<Rightarrow> string" where
  "lower [] = []"
| "lower (c # cs) =
     (if prefix kelvin_sign (c # cs) then CHR ''k'' # lower (drop 2 cs)
      else if prefix dotted_capital_i (c # cs) then
        [CHR ''i'', CHR 0xCC, CHR 0x87] @ lower (drop 1 cs)
      else lower_char c # lower cs)"

declare lower.simps(2) [simp del]

text \<open>\<^verbatim>\<open>v.lower()\<close> on a value: \<^verbatim>\<open>None\<close> has no such method.\<close>

fun py_lower :: "json_text \<Rightarrow> error + string" where
  "py_lower (JString s) = Inr (lower s)"
| "py_lower JNull = Inl AttributeError"

text \<open>Truth value of a value, and its text in an f-string.\<close>

fun truthy :: "json_text \<Rightarrow> bool" where
  "truthy (JString s) = (s \<noteq> [])"
| "truthy JNull = False"

fun py_str :: "json_text \<Rightarrow> string" where
  "py_str (JString s) = s"
| "py_str JNull = ''None''"

text \<open>\<^verbatim>\<open>sep.join(xs)\<close>.\<close>

fun join :: "string \<Rightarrow> string list \<Rightarrow> string" where
  "join sep [] = []"
| "join sep [x] = x"
| "join sep (x # y # ys) = x @ sep @ join sep (y # ys)"

text \<open>
  The characters of the source outside ASCII (bullets, arrows, the currency sign and
  the pictographs that open each answer) are written as the bytes of their UTF-8
  encoding in \<^verbatim>\<open>main.py\<close>.
\<close>

definition sym_bullet :: string where
  "sym_bullet = [CHR 0xE2, CHR 0x80, CHR 0x9A, CHR 0xC3, CHR 0x84, CHR 0xC2, CHR 0xA2]"

definition sym_rupee :: string where
  "sym_rupee = [CHR 0xE2, CHR 0x80, CHR 0x9A, CHR 0xC3, CHR 0x87, CHR 0xCF, CHR 0x80]"

definition sym_arrow :: string where
  "sym_arrow = [CHR 0xE2, CHR 0x80, CHR 0x9A, CHR 0xC3, CHR 0x9C, CHR 0xC3, CHR 0xAD]"

definition sym_robot :: string where
  "sym_robot = [CHR 0xEF, CHR 0xA3, CHR 0xBF, CHR 0xC3, CHR 0xBC, CHR 0xC2, CHR 0xA7, CHR 0xC3, CHR 0xB1]"

definition sym_house :: string where
  "sym_house = [CHR 0xEF, CHR 0xA3, CHR 0xBF, CHR 0xC3, CHR 0xBC, CHR 0xC3, CHR 0xA8, CHR 0xE2, CHR 0x80, CHR 0xA0]"

definition sym_target :: string where
  "sym_target = [CHR 0xEF, CHR 0xA3, CHR 0xBF, CHR 0xC3, CHR 0xBC, CHR 0xC3, CHR 0xA9, CHR 0xC3, CHR 0x98]"

definition sym_chart :: string where
  "sym_chart = [CHR 0xEF, CHR 0xA3, CHR 0xBF, CHR 0xC3, CHR 0xBC, CHR 0xC3, CHR 0xAC, CHR 0xC3, CHR 0xA0]"

definition sym_books :: string where
  "sym_books = [CHR 0xEF, CHR 0xA3, CHR 0xBF, CHR 0xC3, CHR 0xBC, CHR 0xC3, CHR 0xAC, CHR 0xC3, CHR 0xB6]"

definition sym_briefcase :: string where
  "sym_briefcase = [CHR 0xEF, CHR 0xA3, CHR 0xBF, CHR 0xC3, CHR 0xBC, CHR 0xC3, CHR 0xAD, CHR 0xC2, CHR 0xBA]"

definition sym_money :: string where
  "sym_money = [CHR 0xEF, CHR 0xA3, CHR 0xBF, CHR 0xC3, CHR 0xBC, CHR 0xC3, CHR 0xAD, CHR 0xE2, CHR 0x88, CHR 0x9E]"

definition sym_rocket :: string where
  "sym_rocket = [CHR 0xEF, CHR 0xA3, CHR 0xBF, CHR 0xC3, CHR 0xBC, CHR 0xC3, CHR 0xB6, CHR 0xC3, CHR 0x84]"

record guidance =
  description :: string
  g_skills :: "string list"
  career_path :: string
  salary_range :: string
  growth_tips :: string

text \<open>The dictionary \<^verbatim>\<open>career_guidance\<close>, in the order of the source.\<close>

definition career_guidance :: "(string \<times> guidance) list" where
  "career_guidance =
     [
      (''software engineer'',
       \<lparr> description = ''Software Engineers design, develop, and maintain software systems and applications.'',
         g_skills = [''Programming'', ''Data Structures'', ''Algorithms'', ''Version Control'', ''Testing''],
         career_path =
           ''Junior Dev '' @ sym_arrow @ '' Senior Dev '' @ sym_arrow @ '' Tech Lead '' @ sym_arrow @
           '' Engineering Manager '' @ sym_arrow @ '' CTO'',
         salary_range = sym_rupee @ ''3-6L (Junior) to '' @ sym_rupee @ ''30L+ (Senior)'',
         growth_tips =
           ''Contribute to open source, build projects, learn cloud technologies'' \<rparr>),
      (''data scientist'',
       \<lparr> description = ''Data Scientists analyze complex data to help organizations make better decisions.'',
         g_skills = [''Python'', ''Machine Learning'', ''Statistics'', ''SQL'', ''Data Visualization''],
         career_path =
           ''Junior Data Scientist '' @ sym_arrow @ '' Data Scientist '' @ sym_arrow @
           '' Senior Data Scientist '' @ sym_arrow @ '' Lead/Principal '' @ sym_arrow @
           '' Chief Data Officer'',
         salary_range = sym_rupee @ ''4-8L (Junior) to '' @ sym_rupee @ ''35L+ (Senior)'',
         growth_tips =
           ''Kaggle competitions, publish research, learn deep learning'' \<rparr>),
      (''ai engineer'',
       \<lparr> description = ''AI Engineers develop and implement artificial intelligence solutions.'',
         g_skills = [''Python'', ''TensorFlow/PyTorch'', ''Machine Learning'', ''Neural Networks'', ''MLOps''],
         career_path =
           ''Junior AI Engineer '' @ sym_arrow @ '' AI Engineer '' @ sym_arrow @
           '' Senior AI Engineer '' @ sym_arrow @ '' AI Lead '' @ sym_arrow @ '' AI Director'',
         salary_range = sym_rupee @ ''5-10L (Junior) to '' @ sym_rupee @ ''40L+ (Senior)'',
         growth_tips =
           ''Build ML projects, read research papers, contribute to AI open source'' \<rparr>),
      (''web developer'',
       \<lparr> description = ''Web Developers create and maintain websites and web applications.'',
         g_skills = [''HTML/CSS'', ''JavaScript'', ''React/Angular/Vue'', ''Node.js'', ''APIs''],
         career_path =
           ''Junior Developer '' @ sym_arrow @ '' Frontend/Backend Developer '' @ sym_arrow @
           '' Senior Developer '' @ sym_arrow @ '' Lead '' @ sym_arrow @ '' Architect'',
         salary_range = sym_rupee @ ''3-6L (Junior) to '' @ sym_rupee @ ''25L+ (Senior)'',
         growth_tips =
           ''Build a strong portfolio, learn modern frameworks, contribute to projects'' \<rparr>),
      (''devops engineer'',
       \<lparr> description = ''DevOps Engineers bridge the gap between development and operations.'',
         g_skills = [''Linux'', ''Docker'', ''Kubernetes'', ''CI/CD'', ''Cloud Platforms''],
         career_path =
           ''Jr. DevOps '' @ sym_arrow @ '' DevOps Engineer '' @ sym_arrow @ '' Sr. DevOps '' @
           sym_arrow @ '' DevOps Lead '' @ sym_arrow @ '' SRE Manager'',
         salary_range = sym_rupee @ ''4-8L (Junior) to '' @ sym_rupee @ ''30L+ (Senior)'',
         growth_tips =
           ''Get cloud certifications, automate everything, learn infrastructure as code'' \<rparr>),
      (''cybersecurity'',
       \<lparr> description = ''Security Engineers protect systems and data from cyber threats.'',
         g_skills = [''Network Security'', ''Penetration Testing'', ''Security Tools'', ''Compliance'', ''Incident Response''],
         career_path =
           ''Security Analyst '' @ sym_arrow @ '' Security Engineer '' @ sym_arrow @
           '' Senior Security '' @ sym_arrow @ '' Security Lead '' @ sym_arrow @ '' CISO'',
         salary_range = sym_rupee @ ''4-8L (Junior) to '' @ sym_rupee @ ''35L+ (Senior)'',
         growth_tips =
           ''Get certifications (CISSP, CEH), participate in bug bounties, stay updated'' \<rparr>)
     ]"

text \<open>The dictionary \<^verbatim>\<open>keywords\<close>, in the order of the source.\<close>

definition keywords_dict :: "(string \<times> string list) list" where
  "keywords_dict =
     [
      (''salary'', [''salary'', ''package'', ''money'', ''earn'', ''compensation'', ''ctc'']),
      (''skills'', [''skill'', ''learn'', ''technology'', ''tech'', ''language'', ''framework'', ''missing'']),
      (''growth'', [''growth'', ''future'', ''career path'', ''promotion'', ''advance'', ''progress'']),
      (''job'', [''job'', ''interview'', ''resume'', ''hiring'', ''placement'', ''hunt'']),
      (''education'', [''course'', ''degree'', ''study'', ''college'', ''university'', ''masters'']),
      (''startup'', [''startup'', ''entrepreneurship'', ''own business'', ''founder'']),
      (''remote'', [''remote'', ''work from home'', ''wfh'', ''flexible''])
     ]"

text \<open>
  The lookup loop: the first key that occurs in the lower-cased career name, or in
  which the lower-cased career name occurs, gives the guidance. \<open>sublist\<close> is
  Python's \<^verbatim>\<open>in\<close> on strings.
\<close>

fun find_guidance :: "string \<Rightarrow> (string \<times> guidance) list \<Rightarrow> guidance option" where
  "find_guidance career_lower [] = None"
| "find_guidance career_lower ((key, v) # rest) =
     (if sublist key career_lower \<or> sublist career_lower key then Some v
      else find_guidance career_lower rest)"

text \<open>
  The two nested loops that detect the category. The inner loop stops at the first
  keyword found in the question and sets \<^verbatim>\<open>category\<close>; the outer loop stops as soon
  as \<^verbatim>\<open>category\<close> is true (a non-empty string).
\<close>

fun words_loop :: "string \<Rightarrow> string list \<Rightarrow> string \<Rightarrow> string option" where
  "words_loop cat [] question_lower = None"
| "words_loop cat (word # ws) question_lower =
     (if sublist word question_lower then Some cat
      else words_loop cat ws question_lower)"

fun category_loop :: "(string \<times> string list) list \<Rightarrow> string \<Rightarrow> string option" where
  "category_loop [] question_lower = None"
| "category_loop ((cat, ws) # rest) question_lower =
     (let category = words_loop cat ws question_lower in
      if category \<noteq> None \<and> category \<noteq> Some [] then category
      else category_loop rest question_lower)"

definition detect_category :: "string \<Rightarrow> string" where
  "detect_category question_lower =
     (case category_loop keywords_dict question_lower of
        None \<Rightarrow> ''general''
      | Some cat \<Rightarrow> if cat \<noteq> [] then cat else ''general'')"

subsection \<open>The answers\<close>

definition salary_overview :: "string \<Rightarrow> guidance \<Rightarrow> string" where
  "salary_overview career_text g =
     sym_money @ '' **Salary Overview for '' @ career_text @ '':**\<newline>\<newline>'' @
     salary_range g @ ''\<newline>\<newline>'' @ sym_chart @
     '' **Factors affecting salary:**\<newline>'' @ sym_bullet @
     '' Your skills and experience level\<newline>'' @ sym_bullet @
     '' Company size and industry\<newline>'' @ sym_bullet @
     '' Location (metro cities offer more)\<newline>'' @ sym_bullet @
     '' Negotiation skills\<newline>\<newline>'' @
     ''Would you like more specific salary information for a particular company or location?''"

definition salary_information :: "string \<Rightarrow> string" where
  "salary_information career_text =
     sym_money @ '' **Salary Information for '' @ career_text @ '':**\<newline>\<newline>'' @
     ''Salaries vary based on:\<newline>'' @ sym_bullet @
     '' Experience level (entry-level to senior)\<newline>'' @ sym_bullet @
     '' Company type (FAANG, startups, service-based)\<newline>'' @ sym_bullet @
     '' Location (metro vs tier-2 cities)\<newline>'' @ sym_bullet @
     '' Your skill set\<newline>\<newline>'' @ ''**Typical ranges:**\<newline>'' @ sym_bullet @
     '' Entry level: '' @ sym_rupee @ ''3-6 LPA\<newline>'' @ sym_bullet @ '' Mid-level: '' @
     sym_rupee @ ''8-20 LPA\<newline>'' @ sym_bullet @ '' Senior level: '' @ sym_rupee @
     ''20-50+ LPA\<newline>\<newline>'' @
     ''Specific companies like Google, Microsoft, Amazon offer 20-50% higher packages.''"

definition skills_to_develop :: "string \<Rightarrow> string list \<Rightarrow> string" where
  "skills_to_develop career_text skills =
     sym_target @ '' **Skills to Develop for '' @ career_text @ '':**\<newline>\<newline>'' @
     ''**Priority Skills:**\<newline>'' @
     join ''\<newline>'' (map (\<lambda>skill. sym_bullet @ '' '' @ skill) (take 5 skills)) @
     ''\<newline>\<newline>'' @ ''**Recommended Learning Path:**\<newline>'' @
     ''1. Start with fundamentals of each skill\<newline>'' @
     ''2. Build practical projects\<newline>'' @
     ''3. Get certifications if available\<newline>'' @
     ''4. Practice on platforms like HackerRank\<newline>'' @
     ''5. Contribute to open source\<newline>\<newline>'' @
     ''**Learning Resources:**\<newline>'' @ sym_bullet @
     '' Coursera, Udemy for courses\<newline>'' @ sym_bullet @
     '' YouTube tutorials\<newline>'' @ sym_bullet @ '' Official documentation\<newline>'' @
     sym_bullet @ '' Hands-on projects''"

definition essential_skills :: "string \<Rightarrow> guidance \<Rightarrow> string" where
  "essential_skills career_text g =
     sym_target @ '' **Essential Skills for '' @ career_text @ '':**\<newline>\<newline>'' @
     join ''\<newline>'' (map (\<lambda>skill. sym_bullet @ '' '' @ skill) (g_skills g)) @
     ''\<newline>\<newline>'' @ ''**How to build these skills:**\<newline>'' @
     ''1. **Programming:** Practice daily on LeetCode, HackerRank\<newline>'' @
     ''2. **Frameworks:** Follow official docs and build projects\<newline>'' @
     ''3. **Tools:** Get hands-on experience through internships\<newline>'' @
     ''4. **Soft Skills:** Take leadership roles in college projects\<newline>\<newline>'' @
     ''**Recommended Resources:**\<newline>'' @ sym_bullet @
     '' Online courses (Coursera, edX)\<newline>'' @ sym_bullet @
     '' Books and documentation\<newline>'' @ sym_bullet @ '' Bootcamps and workshops''"

definition skills_development :: "string \<Rightarrow> string" where
  "skills_development career_text =
     sym_target @ '' **Skills Development for '' @ career_text @ '':**\<newline>\<newline>'' @
     ''To excel in this career path, focus on:\<newline>\<newline>'' @
     ''**Technical Skills:**\<newline>'' @ sym_bullet @
     '' Programming languages relevant to your field\<newline>'' @ sym_bullet @
     '' Data structures and algorithms\<newline>'' @ sym_bullet @
     '' Version control (Git)\<newline>'' @ sym_bullet @
     '' Problem-solving abilities\<newline>\<newline>'' @ ''**Soft Skills:**\<newline>'' @
     sym_bullet @ '' Communication\<newline>'' @ sym_bullet @
     '' Team collaboration\<newline>'' @ sym_bullet @ '' Time management\<newline>'' @
     sym_bullet @ '' Continuous learning mindset\<newline>\<newline>'' @
     ''**Action Steps:**\<newline>'' @
     ''1. Identify specific skills needed from job postings\<newline>'' @
     ''2. Create a learning schedule\<newline>'' @ ''3. Build real-world projects\<newline>'' @
     ''4. Get feedback and improve''"

definition career_growth_path :: "string \<Rightarrow> guidance \<Rightarrow> string" where
  "career_growth_path career_text g =
     sym_chart @ '' **Career Growth Path for '' @ career_text @ '':**\<newline>\<newline>'' @
     ''**Typical Progression:**\<newline>'' @ career_path g @ ''\<newline>\<newline>'' @
     ''**Growth Tips:**\<newline>'' @ sym_bullet @ '' '' @ growth_tips g @
     ''\<newline>\<newline>'' @ ''**Key Milestones:**\<newline>'' @ sym_bullet @
     '' 0-2 years: Building fundamentals\<newline>'' @ sym_bullet @
     '' 2-5 years: Specializing and taking ownership\<newline>'' @ sym_bullet @
     '' 5+ years: Leadership and strategic impact\<newline>\<newline>'' @
     ''**What employers look for at each level:**\<newline>'' @ sym_bullet @
     '' Junior: Learning ability, coding skills\<newline>'' @ sym_bullet @
     '' Senior: Technical depth, mentoring\<newline>'' @ sym_bullet @
     '' Lead: Strategy, people management''"

definition career_growth_in :: "string \<Rightarrow> string" where
  "career_growth_in career_text =
     sym_chart @ '' **Career Growth in '' @ career_text @ '':**\<newline>\<newline>'' @
     ''**Growth Strategies:**\<newline>'' @
     ''1. **Continuous Learning:** Stay updated with industry trends\<newline>'' @
     ''2. **Network:** Build professional relationships\<newline>'' @
     ''3. **Mentorship:** Find mentors and become one\<newline>'' @
     ''4. **Visibility:** Contribute to projects and communities\<newline>'' @
     ''5. **Results:** Deliver measurable impact\<newline>\<newline>'' @
     ''**Timeline:**\<newline>'' @ sym_bullet @ '' Year 1-2: Learn and adapt\<newline>'' @
     sym_bullet @ '' Year 2-5: Specialize and lead\<newline>'' @ sym_bullet @
     '' Year 5+: Strategic impact and leadership\<newline>\<newline>'' @
     ''**Accelerate Your Growth:**\<newline>'' @ sym_bullet @
     '' Switch to product companies for faster growth\<newline>'' @ sym_bullet @
     '' Consider international opportunities\<newline>'' @ sym_bullet @
     '' Build a strong personal brand''"

definition job_search_tips :: "string \<Rightarrow> string" where
  "job_search_tips career_text =
     sym_briefcase @ '' **Job Search Tips for '' @ career_text @ '':**\<newline>\<newline>'' @
     ''**Resume Tips:**\<newline>'' @ sym_bullet @
     '' Highlight relevant projects and skills\<newline>'' @ sym_bullet @
     '' Use action verbs and quantify achievements\<newline>'' @ sym_bullet @
     '' Tailor resume for each application\<newline>'' @ sym_bullet @
     '' Include GitHub/portfolio links\<newline>\<newline>'' @
     ''**Interview Preparation:**\<newline>'' @ sym_bullet @
     '' Practice coding on LeetCode\<newline>'' @ sym_bullet @
     '' Prepare system design questions\<newline>'' @ sym_bullet @
     '' Study company-specific questions\<newline>'' @ sym_bullet @
     '' Mock interviews with peers\<newline>\<newline>'' @ ''**Where to Apply:**\<newline>'' @
     sym_bullet @ '' Company career pages\<newline>'' @ sym_bullet @
     '' LinkedIn, Naukri, Indeed\<newline>'' @ sym_bullet @
     '' referrals (most effective!)\<newline>'' @ sym_bullet @
     '' Campus placements\<newline>\<newline>'' @ ''**Top Companies:**\<newline>'' @
     ''FAANG, Microsoft, Goldman Sachs, and growing startups''"

definition educational_path :: "string \<Rightarrow> string" where
  "educational_path career_text =
     sym_books @ '' **Educational Path for '' @ career_text @ '':**\<newline>\<newline>'' @
     ''**Minimum Requirements:**\<newline>'' @ sym_bullet @
     '' Bachelor's degree in relevant field\<newline>'' @ sym_bullet @
     '' Strong foundation in programming/math\<newline>\<newline>'' @
     ''**Recommended Courses:**\<newline>'' @ sym_bullet @
     '' Data Structures & Algorithms\<newline>'' @ sym_bullet @
     '' Database Management Systems\<newline>'' @ sym_bullet @
     '' Operating Systems\<newline>'' @ sym_bullet @
     '' Computer Networks\<newline>\<newline>'' @
     ''**Higher Studies (Optional):**\<newline>'' @ sym_bullet @
     '' M.Tech for research roles\<newline>'' @ sym_bullet @
     '' MBA for management roles\<newline>'' @ sym_bullet @
     '' Certifications for specific skills\<newline>\<newline>'' @
     ''**Self-Learning:**\<newline>'' @ sym_bullet @
     '' Online platforms: Coursera, edX, Udemy\<newline>'' @ sym_bullet @
     '' Bootcamps for intensive training\<newline>'' @ sym_bullet @
     '' Open source contributions''"

definition startup_guidance_for :: "string \<Rightarrow> string" where
  "startup_guidance_for career_text =
     sym_rocket @ '' **Startup Guidance for '' @ career_text @ '':**\<newline>\<newline>'' @
     ''**Starting a Tech Startup:**\<newline>'' @
     ''1. **Validate your idea:** Research market needs\<newline>'' @
     ''2. **Build an MVP:** Start with minimum features\<newline>'' @
     ''3. **Find co-founders:** Complementary skills\<newline>'' @
     ''4. **Get initial users:** Early adopter program\<newline>'' @
     ''5. **Seek funding:** Angels, VCs, incubators\<newline>\<newline>'' @
     ''**Essential Skills:**\<newline>'' @ sym_bullet @
     '' Technical expertise (you need to build!)\<newline>'' @ sym_bullet @
     '' Business development\<newline>'' @ sym_bullet @ '' Marketing and sales\<newline>'' @
     sym_bullet @ '' Fundraising\<newline>\<newline>'' @ ''**Resources:**\<newline>'' @
     sym_bullet @ '' Startup incubators (Y Combinator, 91springboard)\<newline>'' @
     sym_bullet @ '' Government schemes\<newline>'' @ sym_bullet @
     '' Angel networks\<newline>\<newline>'' @ ''**Risk Assessment:**\<newline>'' @
     sym_bullet @ '' High risk, high reward\<newline>'' @ sym_bullet @
     '' Ensure financial runway of 12-18 months''"

definition remote_work_in :: "string \<Rightarrow> string" where
  "remote_work_in career_text =
     sym_house @ '' **Remote Work in '' @ career_text @ '':**\<newline>\<newline>'' @
     ''**Remote-Friendly Aspects:**\<newline>'' @ sym_bullet @
     '' Software development is highly remote-friendly\<newline>'' @ sym_bullet @
     '' Data science roles often allow remote work\<newline>'' @ sym_bullet @
     '' DevOps and cloud roles are remote-friendly\<newline>\<newline>'' @
     ''**Tips for Remote Success:**\<newline>'' @ sym_bullet @
     '' Create a dedicated workspace\<newline>'' @ sym_bullet @
     '' Maintain regular hours\<newline>'' @ sym_bullet @
     '' Over-communicate with team\<newline>'' @ sym_bullet @
     '' Use collaboration tools effectively\<newline>'' @ sym_bullet @
     '' Build strong online presence\<newline>\<newline>'' @
     ''**Companies Offering Remote:**\<newline>'' @ sym_bullet @
     '' Most tech companies post-pandemic\<newline>'' @ sym_bullet @
     '' Product companies are more flexible\<newline>'' @ sym_bullet @
     '' Check job descriptions for remote policy\<newline>\<newline>'' @
     ''**Building Remote Career:**\<newline>'' @ sym_bullet @
     '' Time zone alignment matters\<newline>'' @ sym_bullet @
     '' Strong communication is key\<newline>'' @ sym_bullet @
     '' Self-discipline and motivation essential''"

definition career_overview :: "string \<Rightarrow> guidance \<Rightarrow> string" where
  "career_overview career_text g =
     sym_robot @ '' **'' @ career_text @ '' Overview:**\<newline>\<newline>'' @ description g @
     ''\<newline>\<newline>'' @ ''**What you'll do:**\<newline>'' @ sym_bullet @
     '' Design and implement solutions\<newline>'' @ sym_bullet @
     '' Collaborate with cross-functional teams\<newline>'' @ sym_bullet @
     '' Stay updated with technology trends\<newline>'' @ sym_bullet @
     '' Solve complex problems\<newline>\<newline>'' @
     ''**Best suited for you if:**\<newline>'' @ sym_bullet @
     '' You enjoy problem-solving\<newline>'' @ sym_bullet @
     '' You like continuous learning\<newline>'' @ sym_bullet @
     '' You're detail-oriented\<newline>'' @ sym_bullet @
     '' You work well in teams\<newline>\<newline>'' @ ''**Getting Started:**\<newline>'' @
     ''1. Build a strong foundation in basics\<newline>'' @
     ''2. Create projects for your portfolio\<newline>'' @
     ''3. Network with professionals\<newline>'' @
     ''4. Apply for internships\<newline>\<newline>'' @
     ''Would you like more specific information about any aspect?''"

definition career_guidance_for :: "string \<Rightarrow> string" where
  "career_guidance_for career_text =
     sym_robot @ '' **'' @ career_text @ '' Career Guidance:**\<newline>\<newline>'' @
     ''This is a great career choice for engineering students!\<newline>\<newline>'' @
     ''**To succeed in this field:**\<newline>'' @ sym_bullet @
     '' Focus on core technical skills\<newline>'' @ sym_bullet @
     '' Build practical projects\<newline>'' @ sym_bullet @
     '' Stay updated with industry trends\<newline>'' @ sym_bullet @
     '' Network with professionals\<newline>\<newline>'' @ ''**Next Steps:**\<newline>'' @
     ''1. Identify specific skills needed\<newline>'' @
     ''2. Create a learning roadmap\<newline>'' @ ''3. Start building projects\<newline>'' @
     ''4. Apply for relevant positions\<newline>\<newline>'' @
     ''Would you like personalized advice based on your profile?''"

definition career_guidance_assistant :: "string" where
  "career_guidance_assistant =
     sym_robot @ '' **Career Guidance Assistant:**\<newline>\<newline>'' @
     ''I'd be happy to help with your career questions! You can ask me about:\<newline>\<newline>'' @
     sym_bullet @ '' '' @ sym_money @ '' Salary and compensation\<newline>'' @ sym_bullet @
     '' '' @ sym_target @ '' Skills to learn and develop\<newline>'' @ sym_bullet @ '' '' @
     sym_chart @ '' Career growth and progression\<newline>'' @ sym_bullet @ '' '' @
     sym_briefcase @ '' Job search and interview tips\<newline>'' @ sym_bullet @ '' '' @
     sym_books @ '' Education and courses\<newline>'' @ sym_bullet @ '' '' @ sym_rocket @
     '' Startup and entrepreneurship\<newline>'' @ sym_bullet @ '' '' @ sym_house @
     '' Remote work opportunities\<newline>\<newline>'' @
     ''**To provide better guidance:**\<newline>'' @
     ''1. Fill in your profile details\<newline>'' @
     ''2. Get career recommendations\<newline>'' @
     ''3. Ask specific questions\<newline>\<newline>'' @
     ''What would you like to know more about?''"

text \<open>The branch on the category, then on guidance, missing skills and career.\<close>

definition render :: "string \<Rightarrow> guidance option \<Rightarrow> json_text \<Rightarrow> string list \<Rightarrow> string" where
  "render category guidance career_val skills =
     (if category = ''salary'' then
        (case guidance of
           Some g \<Rightarrow> salary_overview (py_str career_val) g
         | None \<Rightarrow> salary_information (py_str career_val))
      else if category = ''skills'' then
        (if skills \<noteq> [] then skills_to_develop (py_str career_val) skills
         else (case guidance of
                 Some g \<Rightarrow> essential_skills (py_str career_val) g
               | None \<Rightarrow> skills_development (py_str career_val)))
      else if category = ''growth'' then
        (case guidance of
           Some g \<Rightarrow> career_growth_path (py_str career_val) g
         | None \<Rightarrow> career_growth_in (py_str career_val))
      else if category = ''job'' then job_search_tips (py_str career_val)
      else if category = ''education'' then educational_path (py_str career_val)
      else if category = ''startup'' then startup_guidance_for (py_str career_val)
      else if category = ''remote'' then remote_work_in (py_str career_val)
      else
        (case guidance of
           Some g \<Rightarrow> career_overview (py_str career_val) g
         | None \<Rightarrow>
             if truthy career_val then career_guidance_for (py_str career_val)
             else career_guidance_assistant))"

definition get_rule_based_response :: "chat_data \<Rightarrow> error + string" where
  "get_rule_based_response data =
     (case py_lower (get_default (question data) (JString [])) of
        Inl e \<Rightarrow> Inl e
      | Inr question_lower \<Rightarrow>
          let career_val = get_default (chat_career data) (JString []);
              skills = get_default (chat_missing_skills data) []
          in (case (if truthy career_val then py_lower career_val else Inr []) of
                Inl e \<Rightarrow> Inl e
              | Inr career_lower \<Rightarrow>
                  Inr (render (detect_category question_lower)
                         (find_guidance career_lower career_guidance)
                         career_val skills)))"

text \<open>
  The handler asks the external service first. \<open>llm\<close> is the outcome of that call:
  \<open>Some text\<close> when it answered with status 200 and a well-formed body, \<open>None\<close>
  when the call failed, timed out or answered anything else. The fallback is called
  outside the \<^verbatim>\<open>try\<close> block.
\<close>

definition career_chat :: "string option \<Rightarrow> chat_data \<Rightarrow> error + string" where
  "career_chat llm data =
     (case llm of
        Some text \<Rightarrow> Inr text
      | None \<Rightarrow> get_rule_based_response data)"

section \<open>The handlers on the heap\<close>

text \<open>
  The catalog \<^verbatim>\<open>careers\<close> and the dictionary \<^verbatim>\<open>SKILL_ROADMAPS\<close> are objects that
  every request shares, and the handlers build their answers from the same kind of
  objects: they append to lists, sort a list in place, assign to keys of dictionaries
  and put lists of the catalog into their answers. This section models the handlers
  once more with these effects written out. Lists and dictionaries live on a heap and
  are named by their addresses; strings, numbers, \<^verbatim>\<open>None\<close> and the sets that only
  serve as intermediate results are values. The heap is the list of all objects
  created so far, and the address of an object is its position.

  The request body is the record of the sections above: the handlers only read it.
\<close>

type_synonym addr = nat

datatype pyval = VNone | VInt nat | VStr string | VRef addr

datatype pyobj = OList "pyval list" | ODict "(string \<times> pyval) list"

type_synonym heap = "pyobj list"

text \<open>
  A step either returns a value or raises, and leaves a heap behind in both cases.
  \<open>Ill_typed\<close> is raised where an object is not of the kind the data model
  gives it (a catalog that is not a list of dictionaries, interests that are not a
  list of strings).
\<close>

datatype fault = Raised error | Ill_typed

type_synonym 'a prog = "heap \<Rightarrow> (fault + 'a) \<times> heap"

definition ret :: "'a \<Rightarrow> 'a prog" where
  "ret x = (\<lambda>h. (Inr x, h))"

definition throw :: "fault \<Rightarrow> 'a prog" where
  "throw e = (\<lambda>h. (Inl e, h))"

definition andthen :: "'a prog \<Rightarrow> ('a \<Rightarrow> 'b prog) \<Rightarrow> 'b prog" where
  "andthen m f =
     (\<lambda>h. case m h of
            (Inl e, h') \<Rightarrow> (Inl e, h')
          | (Inr x, h') \<Rightarrow> f x h')"

text \<open>A list display, a dictionary display or \<^verbatim>\<open>list(...)\<close> creates a new object.\<close>

definition alloc :: "pyobj \<Rightarrow> addr prog" where
  "alloc obj = (\<lambda>h. (Inr (length h), h @ [obj]))"

definition load :: "pyval \<Rightarrow> pyobj prog" where
  "load v =
     (\<lambda>h. case v of
            VRef a \<Rightarrow> if a < length h then (Inr (h ! a), h) else (Inl Ill_typed, h)
          | _ \<Rightarrow> (Inl Ill_typed, h))"

text \<open>The only step that changes an object that exists.\<close>

definition store :: "addr \<Rightarrow> pyobj \<Rightarrow> unit prog" where
  "store a obj = (\<lambda>h. (Inr (), h[a := obj]))"

definition load_list :: "pyval \<Rightarrow> pyval list prog" where
  "load_list v =
     andthen (load v) (\<lambda>obj. case obj of OList xs \<Rightarrow> ret xs | ODict kvs \<Rightarrow> throw Ill_typed)"

definition load_dict :: "pyval \<Rightarrow> (string \<times> pyval) list prog" where
  "load_dict v =
     andthen (load v) (\<lambda>obj. case obj of ODict kvs \<Rightarrow> ret kvs | OList xs \<Rightarrow> throw Ill_typed)"

text \<open>\<^verbatim>\<open>d[key]\<close> and \<^verbatim>\<open>d.get(key, default)\<close> on a dictionary of the heap.\<close>

definition subscript :: "pyval \<Rightarrow> string \<Rightarrow> pyval prog" where
  "subscript d key =
     andthen (load_dict d)
       (\<lambda>kvs. case map_of kvs key of
                Some v \<Rightarrow> ret v
              | None \<Rightarrow> throw (Raised (KeyError key)))"

definition get_or :: "pyval \<Rightarrow> string \<Rightarrow> pyval \<Rightarrow> pyval prog" where
  "get_or d key default_value =
     andthen (load_dict d)
       (\<lambda>kvs. ret (case map_of kvs key of Some v \<Rightarrow> v | None \<Rightarrow> default_value))"

text \<open>\<^verbatim>\<open>d.get(key, [])\<close>: the default is a new empty list.\<close>

definition get_or_new_list :: "pyval \<Rightarrow> string \<Rightarrow> pyval prog" where
  "get_or_new_list d key = andthen (alloc (OList [])) (\<lambda>fresh. get_or d key (VRef fresh))"

text \<open>The strings of a list of strings, as \<^verbatim>\<open>set(...)\<close> reads them.\<close>

fun strs :: "pyval list \<Rightarrow> string list option" where
  "strs [] = Some []"
| "strs (VStr s # xs) = map_option ((#) s) (strs xs)"
| "strs (v # xs) = None"

definition strings :: "pyval \<Rightarrow> string list prog" where
  "strings v =
     andthen (load_list v)
       (\<lambda>xs. case strs xs of Some ss \<Rightarrow> ret ss | None \<Rightarrow> throw Ill_typed)"

text \<open>\<^verbatim>\<open>xs.append(v)\<close> and \<^verbatim>\<open>d[key] = v\<close>: the object at the address is replaced.\<close>

definition list_append :: "addr \<Rightarrow> pyval \<Rightarrow> unit prog" where
  "list_append a v = andthen (load_list (VRef a)) (\<lambda>xs. store a (OList (xs @ [v])))"

fun assign :: "string \<Rightarrow> pyval \<Rightarrow> (string \<times> pyval) list \<Rightarrow> (string \<times> pyval) list" where
  "assign key v [] = [(key, v)]"
| "assign key v ((k, w) # kvs) =
     (if k = key then (k, v) # kvs else (k, w) # assign key v kvs)"

definition setitem :: "addr \<Rightarrow> string \<Rightarrow> pyval \<Rightarrow> unit prog" where
  "setitem a key v = andthen (load_dict (VRef a)) (\<lambda>kvs. store a (ODict (assign key v kvs)))"

text \<open>\<^verbatim>\<open>student[key]\<close> and \<^verbatim>\<open>student.get(key)\<close> on the request.\<close>

definition required_key :: "string \<Rightarrow> 'a option \<Rightarrow> 'a prog" where
  "required_key key v =
     (case v of None \<Rightarrow> throw (Raised (KeyError key)) | Some x \<Rightarrow> ret x)"

definition optional_text :: "string option \<Rightarrow> pyval" where
  "optional_text v = (case v of None \<Rightarrow> VNone | Some s \<Rightarrow> VStr s)"

subsection \<open>The matcher\<close>

text \<open>
  \<^verbatim>\<open>list(set(career["required_skills"]) - set(...))\<close>, a new list; \<open>current\<close> reads
  the current skills of the request.
\<close>

definition missing_list :: "pyval \<Rightarrow> string list prog \<Rightarrow> addr prog" where
  "missing_list c current =
     andthen (subscript c ''required_skills'') (\<lambda>rv.
     andthen (strings rv) (\<lambda>required.
     andthen current (\<lambda>skills.
     alloc (OList (map VStr (set_difference_list required skills))))))"

text \<open>
  The first ten keys of an entry of \<^verbatim>\<open>recommendations\<close>. The values read from the
  catalog record are put into the entry as they are: a list of the catalog is shared
  with the entry, not copied.
\<close>

definition entry_fields :: "pyval \<Rightarrow> nat \<Rightarrow> addr \<Rightarrow> (string \<times> pyval) list prog" where
  "entry_fields c interest_match missing =
     andthen (subscript c ''career'') (\<lambda>career_name.
     andthen (subscript c ''difficulty'') (\<lambda>career_difficulty.
     andthen (get_or_new_list c ''branch'') (\<lambda>br.
     andthen (get_or_new_list c ''required_skills'') (\<lambda>rs.
     andthen (get_or_new_list c ''tools'') (\<lambda>tl.
     andthen (get_or_new_list c ''certifications'') (\<lambda>ce.
     andthen (get_or_new_list c ''exams'') (\<lambda>ex.
     andthen (get_or_new_list c ''future_trends'') (\<lambda>ft.
     ret [(''career'', career_name),
          (''interest_match_score'', VInt interest_match),
          (''missing_skills'', VRef missing),
          (''difficulty'', career_difficulty),
          (''branch'', br),
          (''required_skills'', rs),
          (''tools'', tl),
          (''certifications'', ce),
          (''exams'', ex),
          (''future_trends'', ft)]))))))))"

fun recommend_loop_heap :: "request \<Rightarrow> addr \<Rightarrow> pyval list \<Rightarrow> unit prog" where
  "recommend_loop_heap student recommendations [] = ret ()"
| "recommend_loop_heap student recommendations (c # rest) =
     andthen (required_key ''interests'' (interests student)) (\<lambda>wanted.
     andthen (subscript c ''interests'') (\<lambda>iv.
     andthen (strings iv) (\<lambda>career_interests.
     andthen
       (if interest_match_of wanted career_interests > 0 then
          andthen (missing_list c (required_key ''current_skills'' (current_skills student)))
            (\<lambda>missing.
          andthen (entry_fields c (interest_match_of wanted career_interests) missing)
            (\<lambda>fields.
          andthen (get_or c ''startup_guidance'' VNone) (\<lambda>sg.
          andthen (alloc (ODict (fields @ [(''startup_guidance'', sg)]))) (\<lambda>entry.
          list_append recommendations (VRef entry)))))
        else ret ())
       (\<lambda>_. recommend_loop_heap student recommendations rest))))"

text \<open>
  \<^verbatim>\<open>recommendations.sort(key=lambda x: x["interest_match_score"], reverse=True)\<close>:
  the keys are computed first, then the list object is replaced by its sorted
  contents.
\<close>

fun scores :: "pyval list \<Rightarrow> nat list prog" where
  "scores [] = ret []"
| "scores (x # xs) =
     andthen (subscript x ''interest_match_score'') (\<lambda>v.
     case v of
       VInt n \<Rightarrow> andthen (scores xs) (\<lambda>ns. ret (n # ns))
     | _ \<Rightarrow> throw Ill_typed)"

definition sort_by_score :: "addr \<Rightarrow> unit prog" where
  "sort_by_score a =
     andthen (load_list (VRef a)) (\<lambda>xs.
     andthen (scores xs) (\<lambda>keys.
     store a (OList (map snd (sort_reverse fst (zip keys xs))))))"

text \<open>\<^verbatim>\<open>xs[:k]\<close>, a new list.\<close>

definition slice :: "addr \<Rightarrow> nat \<Rightarrow> addr prog" where
  "slice a k = andthen (load_list (VRef a)) (\<lambda>xs. alloc (OList (take k xs)))"

definition recommend_career_heap :: "addr \<Rightarrow> request \<Rightarrow> pyval prog" where
  "recommend_career_heap careers student =
     andthen (alloc (OList [])) (\<lambda>recommendations.
     andthen (load_list (VRef careers)) (\<lambda>cs.
     andthen (recommend_loop_heap student recommendations cs) (\<lambda>_.
     andthen (sort_by_score recommendations) (\<lambda>_.
     andthen (required_key ''name'' (name student)) (\<lambda>student_name.
     andthen (slice recommendations 3) (\<lambda>top.
     andthen (alloc (ODict [(''student'', VStr student_name),
                            (''recommended_careers'', VRef top)])) (\<lambda>response.
     ret (VRef response))))))))"

fun quiz_loop_heap :: "string list \<Rightarrow> request \<Rightarrow> addr \<Rightarrow> pyval list \<Rightarrow> unit prog" where
  "quiz_loop_heap relevant_interests data recommendations [] = ret ()"
| "quiz_loop_heap relevant_interests data recommendations (c # rest) =
     andthen (subscript c ''interests'') (\<lambda>iv.
     andthen (strings iv) (\<lambda>career_interests.
     andthen
       (if interest_match_of career_interests relevant_interests > 0 then
          andthen (missing_list c (ret (get_default (current_skills data) []))) (\<lambda>missing.
          andthen (entry_fields c (interest_match_of career_interests relevant_interests) missing)
            (\<lambda>fields.
          andthen (alloc (ODict fields)) (\<lambda>entry.
          list_append recommendations (VRef entry))))
        else ret ())
       (\<lambda>_. quiz_loop_heap relevant_interests data recommendations rest)))"

definition quiz_recommend_career_heap :: "addr \<Rightarrow> request \<Rightarrow> pyval prog" where
  "quiz_recommend_career_heap careers data =
     (let dom_code = get_default (domain data) '''';
          relevant_interests =
            get_default (map_of domain_interests dom_code) technical_interests
      in andthen (alloc (OList [])) (\<lambda>recommendations.
         andthen (load_list (VRef careers)) (\<lambda>cs.
         andthen (quiz_loop_heap relevant_interests data recommendations cs) (\<lambda>_.
         andthen (sort_by_score recommendations) (\<lambda>_.
         andthen (slice recommendations 5) (\<lambda>top.
         andthen (alloc (ODict [(''domain'', VStr dom_code),
                                (''domain_name'',
                                 VStr (get_default (map_of domain_names dom_code) ''General'')),
                                (''recommended_careers'', VRef top)])) (\<lambda>response.
         ret (VRef response))))))))"

subsection \<open>Skill gap and roadmap\<close>

fun skill_gap_loop_heap :: "request \<Rightarrow> addr \<Rightarrow> pyval list \<Rightarrow> unit prog" where
  "skill_gap_loop_heap student result [] = ret ()"
| "skill_gap_loop_heap student result (c # rest) =
     andthen (subscript c ''career'') (\<lambda>career_name.
     andthen
       (if career_name = optional_text (target_career student) then
          andthen (subscript c ''career'') (\<lambda>v.
          andthen (setitem result ''career'' v) (\<lambda>_.
          andthen (missing_list c (required_key ''current_skills'' (current_skills student)))
            (\<lambda>missing.
          setitem result ''missing_skills'' (VRef missing))))
        else ret ())
       (\<lambda>_. skill_gap_loop_heap student result rest))"

definition skill_gap_heap :: "addr \<Rightarrow> request \<Rightarrow> pyval prog" where
  "skill_gap_heap careers student =
     andthen (alloc (ODict [])) (\<lambda>result.
     andthen (load_list (VRef careers)) (\<lambda>cs.
     andthen (skill_gap_loop_heap student result cs) (\<lambda>_.
     ret (VRef result))))"

text \<open>
  The inner loop of \<^verbatim>\<open>learning_roadmap\<close>. An entry of \<^verbatim>\<open>SKILL_ROADMAPS\<close> is put
  into the new dictionary as it is, so the answer shares it with the table.
\<close>

fun roadmap_loop_heap :: "addr \<Rightarrow> addr \<Rightarrow> string list \<Rightarrow> unit prog" where
  "roadmap_loop_heap roadmaps roadmap [] = ret ()"
| "roadmap_loop_heap roadmaps roadmap (skill # rest) =
     andthen (load_dict (VRef roadmaps)) (\<lambda>table.
     andthen
       (case map_of table skill of
          Some entry \<Rightarrow> setitem roadmap skill entry
        | None \<Rightarrow>
            andthen (alloc (OList [VStr (''Learn basics of '' @ skill)])) (\<lambda>b.
            andthen (alloc (OList [VStr (''Practice '' @ skill)])) (\<lambda>i.
            andthen (alloc (OList [VStr (''Build projects using '' @ skill)])) (\<lambda>a.
            andthen (alloc (ODict [(''beginner'', VRef b), (''intermediate'', VRef i),
                                   (''advanced'', VRef a)])) (\<lambda>entry.
            setitem roadmap skill (VRef entry))))))
       (\<lambda>_. roadmap_loop_heap roadmaps roadmap rest))"

text \<open>The outer loop returns from the handler at the first record with the target name.\<close>

fun learning_roadmap_loop_heap ::
  "addr \<Rightarrow> request \<Rightarrow> pyval list \<Rightarrow> pyval option prog" where
  "learning_roadmap_loop_heap roadmaps student [] = ret None"
| "learning_roadmap_loop_heap roadmaps student (c # rest) =
     andthen (subscript c ''career'') (\<lambda>career_name.
     if career_name = optional_text (target_career student) then
       andthen (missing_list c (ret (get_default (current_skills student) []))) (\<lambda>missing.
       andthen (alloc (ODict [])) (\<lambda>roadmap.
       andthen (strings (VRef missing)) (\<lambda>skills.
       andthen (roadmap_loop_heap roadmaps roadmap skills) (\<lambda>_.
       andthen (alloc (ODict [(''career'', optional_text (target_career student)),
                              (''missing_skills'', VRef missing),
                              (''learning_roadmap'', VRef roadmap)])) (\<lambda>response.
       ret (Some (VRef response)))))))
     else learning_roadmap_loop_heap roadmaps student rest)"

definition learning_roadmap_heap :: "addr \<Rightarrow> addr \<Rightarrow> request \<Rightarrow> pyval prog" where
  "learning_roadmap_heap careers roadmaps student =
     andthen (load_list (VRef careers)) (\<lambda>cs.
     andthen (learning_roadmap_loop_heap roadmaps student cs) (\<lambda>returned.
     case returned of
       Some response \<Rightarrow> ret response
     | None \<Rightarrow>
         andthen (alloc (ODict [(''error'', VStr ''Career not found'')])) (\<lambda>response.
         ret (VRef response))))"

subsection \<open>Chat and the server\<close>

text \<open>
  The chat handler reads its body, computes a string and returns a new dictionary
  with the key \<^verbatim>\<open>response\<close>; the two dictionaries it builds for its own use never
  leave the function.
\<close>

definition career_chat_heap :: "string option \<Rightarrow> chat_data \<Rightarrow> pyval prog" where
  "career_chat_heap llm data =
     andthen (case career_chat llm data of
                Inl e \<Rightarrow> throw (Raised e)
              | Inr text \<Rightarrow> ret text) (\<lambda>response_text.
     andthen (alloc (ODict [(''response'', VStr response_text)])) (\<lambda>response.
     ret (VRef response)))"

datatype api_request =
    Post_recommend_career request
  | Post_quiz_recommend_career request
  | Post_skill_gap request
  | Post_learning_roadmap request
  | Post_career_chat "string option" chat_data

text \<open>
  One request. \<open>careers\<close> and \<open>roadmaps\<close> are the addresses to which the two module
  variables are bound; no handler assigns to these variables.
\<close>

fun handle :: "addr \<Rightarrow> addr \<Rightarrow> api_request \<Rightarrow> pyval prog" where
  "handle careers roadmaps (Post_recommend_career student) =
     recommend_career_heap careers student"
| "handle careers roadmaps (Post_quiz_recommend_career data) =
     quiz_recommend_career_heap careers data"
| "handle careers roadmaps (Post_skill_gap student) = skill_gap_heap careers student"
| "handle careers roadmaps (Post_learning_roadmap student) =
     learning_roadmap_heap careers roadmaps student"
| "handle careers roadmaps (Post_career_chat llm data) = career_chat_heap llm data"

text \<open>
  A run of the server: the requests are handled one after the other, each on the heap
  the one before has left, whether it returned or raised.
\<close>

fun serve :: "addr \<Rightarrow> addr \<Rightarrow> api_request list \<Rightarrow> heap \<Rightarrow> heap" where
  "serve careers roadmaps [] h = h"
| "serve careers roadmaps (r # rs) h =
     serve careers roadmaps rs (snd (handle careers roadmaps r h))"

subsection \<open>Objects that a program leaves alone\<close>

text \<open>
  \<open>untouched n m\<close>: run on a heap with at least \<open>n\<close> objects, the program \<open>m\<close>
  leaves the first \<open>n\<close> objects as they are, whether it returns or raises.
\<close>

definition untouched :: "nat \<Rightarrow> 'a prog \<Rightarrow> bool" where
  "untouched n m \<longleftrightarrow>
     (\<forall>h. n \<le> length h \<longrightarrow> n \<le> length (snd (m h)) \<and> take n (snd (m h)) = take n h)"

section \<open>Example inputs\<close>

text \<open>
  A small catalog in the format of \<^verbatim>\<open>careers.json\<close>. The first entry is the record
  of the specification's scenario; the name \<^verbatim>\<open>Software Engineer\<close> occurs twice.
\<close>

definition software_engineer :: career_record where
  "software_engineer =
     \<lparr> career = ''Software Engineer'', c_interests = [''Programming'', ''Data''],
       required_skills = [''Python'', ''Git''], difficulty = ''Medium'',
       branch = None, tools = None, certifications = None, exams = None,
       future_trends = None, startup_guidance = None \<rparr>"

definition data_scientist :: career_record where
  "data_scientist =
     \<lparr> career = ''Data Scientist'', c_interests = [''Data'', ''AI'', ''Programming''],
       required_skills = [''Python'', ''Statistics'', ''SQL''], difficulty = ''Hard'',
       branch = Some [''CSE''], tools = Some [''Jupyter''], certifications = None,
       exams = None, future_trends = Some [''AutoML''], startup_guidance = None \<rparr>"

definition ux_designer :: career_record where
  "ux_designer =
     \<lparr> career = ''UX Designer'', c_interests = [''Design'', ''UX''],
       required_skills = [''Figma''], difficulty = ''Easy'',
       branch = None, tools = Some [''Figma''], certifications = None, exams = None,
       future_trends = None, startup_guidance = Some ''Start a design studio'' \<rparr>"

definition web_developer :: career_record where
  "web_developer =
     \<lparr> career = ''Web Developer'', c_interests = [''Web Development'', ''Programming''],
       required_skills = [''HTML'', ''JavaScript'', ''Python''], difficulty = ''Medium'',
       branch = None, tools = None, certifications = None, exams = None,
       future_trends = None, startup_guidance = None \<rparr>"

definition software_engineer_2 :: career_record where
  "software_engineer_2 =
     \<lparr> career = ''Software Engineer'', c_interests = [''Programming''],
       required_skills = [''Java'', ''Git'', ''Python''], difficulty = ''Hard'',
       branch = None, tools = None, certifications = None, exams = None,
       future_trends = None, startup_guidance = None \<rparr>"

definition cloud_engineer :: career_record where
  "cloud_engineer =
     \<lparr> career = ''Cloud Engineer'', c_interests = [''Cloud'', ''Programming''],
       required_skills = [''Linux'', ''Networking''], difficulty = ''Medium'',
       branch = None, tools = None, certifications = Some [''AWS''], exams = None,
       future_trends = None, startup_guidance = None \<rparr>"

definition example_careers :: "career_record list" where
  "example_careers =
     [software_engineer, data_scientist, ux_designer, web_developer,
      software_engineer_2, cloud_engineer]"

definition example_student :: request where
  "example_student =
     \<lparr> name = Some ''Asha'', interests = Some [''Programming'', ''Data''],
       current_skills = Some [''Python''], target_career = Some ''Software Engineer'',
       domain = None \<rparr>"

definition example_quiz :: "string \<Rightarrow> request" where
  "example_quiz code =
     \<lparr> name = None, interests = None, current_skills = Some [''Python''],
       target_career = None, domain = Some code \<rparr>"

text \<open>
  A heap after startup: the catalog with the record of the specification's scenario
  at address 3, and an excerpt of the skill roadmap table with the entry for
  \<^verbatim>\<open>Python\<close> at address 8.
\<close>

definition example_heap :: heap where
  "example_heap =
     [OList [VStr ''Programming'', VStr ''Data''],
      OList [VStr ''Python'', VStr ''Git''],
      ODict [(''career'', VStr ''Software Engineer''), (''interests'', VRef 0),
             (''required_skills'', VRef 1), (''difficulty'', VStr ''Medium'')],
      OList [VRef 2],
      OList [VStr ''Syntax, variables, data types'', VStr ''Loops and conditionals'',
             VStr ''Functions''],
      OList [VStr ''Object-Oriented Programming'', VStr ''Working with files'',
             VStr ''Using libraries like NumPy, Pandas''],
      OList [VStr ''Build real-world projects'', VStr ''Performance optimization'',
             VStr ''Interview-level problem solving''],
      ODict [(''beginner'', VRef 4), (''intermediate'', VRef 5), (''advanced'', VRef 6)],
      ODict [(''Python'', VRef 7)]]"

section \<open>Properties of the primitives\<close>

lemmas example_defs =
  example_careers_def software_engineer_def data_scientist_def ux_designer_def
  web_developer_def software_engineer_2_def cloud_engineer_def example_student_def
  example_quiz_def

lemma set_difference_list_set:
  "set (set_difference_list required current) = set required - set current"
  by (auto simp: set_difference_list_def)

lemma set_difference_list_distinct: "distinct (set_difference_list required current)"
  by (simp add: set_difference_list_def)

lemma sort_reverse_mset: "mset (sort_reverse f xs) = mset xs"
  by (simp add: sort_reverse_def)

lemma sort_reverse_set: "set (sort_reverse f xs) = set xs"
  by (simp add: sort_reverse_def)

lemma sort_reverse_sorted: "sorted_wrt (\<lambda>a b. f b \<le> f a) (sort_reverse f xs)"
proof -
  have "sorted (map f (sort_key f (rev xs)))" by simp
  then have "sorted_wrt (\<lambda>a b. f a \<le> f b) (sort_key f (rev xs))"
    by (simp add: sorted_map)
  then show ?thesis
    by (simp add: sort_reverse_def sorted_wrt_rev)
qed

text \<open>Elements with the same key keep the order they had before the sort.\<close>

lemma sort_reverse_stable:
  "filter (\<lambda>x. f x = n) (sort_reverse f xs) = filter (\<lambda>x. f x = n) xs"
  by (simp add: sort_reverse_def rev_filter [symmetric] sort_key_stable)

lemma sorted_wrt_take: "sorted_wrt P xs \<Longrightarrow> sorted_wrt P (take k xs)"
  by (metis append_take_drop_id sorted_wrt_append)

lemma find_Some_set: "find P xs = Some x \<Longrightarrow> x \<in> set xs"
  by (induction xs) (auto split: if_splits)

section \<open>The matcher\<close>

text \<open>
  When the loop of \<^verbatim>\<open>recommend_career\<close> ends without an exception, it has emitted
  one entry for every catalog record with a positive match, in catalog order.
\<close>

lemma recommend_loop_Inr:
  "recommend_loop s cs = Inr recs \<Longrightarrow>
   recs = map (\<lambda>c. direct_entry c (interest_match_of (get_default (interests s) []) (c_interests c))
                    (get_default (current_skills s) []))
            (filter (\<lambda>c. 0 < interest_match_of (get_default (interests s) []) (c_interests c)) cs)"
  by (induction cs arbitrary: recs)
     (auto simp: Let_def get_default_def split: option.splits sum.splits if_splits)

lemma recommend_loop_returns:
  "interests s = Some w \<Longrightarrow> current_skills s = Some sk \<Longrightarrow> \<exists>recs. recommend_loop s cs = Inr recs"
  by (induction cs) (auto simp: Let_def)

lemma recommend_loop_skills:
  "recommend_loop s cs = Inr recs \<Longrightarrow> recs \<noteq> [] \<Longrightarrow> \<exists>sk. current_skills s = Some sk"
  by (induction cs arbitrary: recs)
     (auto simp: Let_def split: option.splits sum.splits if_splits)

text \<open>The handler returns whenever the three keys it subscripts are present.\<close>

lemma recommend_career_returns:
  assumes "name s = Some n" and "interests s = Some w" and "current_skills s = Some sk"
  shows "\<exists>resp. recommend_career careers s = Inr resp"
proof -
  from recommend_loop_returns [OF assms(2,3)] obtain recs
    where "recommend_loop s careers = Inr recs" ..
  then show ?thesis by (simp add: recommend_career_def assms(1))
qed

lemma quiz_loop_eq:
  "quiz_loop rel d cs =
     map (\<lambda>c. quiz_entry c (interest_match_of (c_interests c) rel) (get_default (current_skills d) []))
         (filter (\<lambda>c. 0 < interest_match_of (c_interests c) rel) cs)"
  by (induction cs) (auto simp: Let_def)

text \<open>
  What sorting and truncating does to a list of entries with positive scores: the
  result is the first \<open>k\<close> elements of a ranking that is a permutation of the entries,
  has non-increasing scores and keeps entries of equal score in their original order.
\<close>

lemma top_ranked:
  assumes "\<forall>r\<in>set recs. 1 \<le> f r"
  shows "(\<exists>ranking. mset ranking = mset recs \<and> sorted_wrt (\<lambda>a b. f b \<le> f a) ranking \<and>
            (\<forall>n. filter (\<lambda>r. f r = n) ranking = filter (\<lambda>r. f r = n) recs) \<and>
            take k (sort_reverse f recs) = take k ranking) \<and>
         (\<forall>r\<in>set (take k (sort_reverse f recs)). 1 \<le> f r) \<and>
         sorted_wrt (\<lambda>a b. f b \<le> f a) (take k (sort_reverse f recs)) \<and>
         length (take k (sort_reverse f recs)) \<le> k"
proof -
  let ?rk = "sort_reverse f recs"
  have "mset ?rk = mset recs \<and> sorted_wrt (\<lambda>a b. f b \<le> f a) ?rk \<and>
        (\<forall>n. filter (\<lambda>r. f r = n) ?rk = filter (\<lambda>r. f r = n) recs) \<and> take k ?rk = take k ?rk"
    by (simp add: sort_reverse_mset sort_reverse_sorted sort_reverse_stable)
  then have a: "\<exists>ranking. mset ranking = mset recs \<and> sorted_wrt (\<lambda>a b. f b \<le> f a) ranking \<and>
            (\<forall>n. filter (\<lambda>r. f r = n) ranking = filter (\<lambda>r. f r = n) recs) \<and>
            take k (sort_reverse f recs) = take k ranking" by blast
  have "set (take k ?rk) \<subseteq> set recs"
    using set_take_subset [of k ?rk] by (simp add: sort_reverse_set)
  with assms have b: "\<forall>r\<in>set (take k ?rk). 1 \<le> f r" by blast
  have c: "sorted_wrt (\<lambda>a b. f b \<le> f a) (take k ?rk)"
    by (rule sorted_wrt_take) (rule sort_reverse_sorted)
  from a b c show ?thesis by simp
qed

text \<open>
  Claim C1. Whenever \<^verbatim>\<open>/recommend-career\<close> returns, and for every call of
  \<^verbatim>\<open>/quiz-recommend-career\<close>, the list \<^verbatim>\<open>recommended_careers\<close> holds only entries
  with a score of at least 1 and is sorted by non-increasing score. It consists of the
  first 3 (direct mode) or first 5 (quiz mode) elements of a ranking of all entries
  with a positive match; in that ranking, entries with equal scores stand in catalog
  order.
\<close>

theorem recommended_careers_ranked:
  "(recommend_career careers student = Inr resp \<longrightarrow>
      (\<exists>recs. recommend_loop student careers = Inr recs \<and>
         map r_career recs =
           map career
             (filter (\<lambda>c. 0 < interest_match_of (get_default (interests student) []) (c_interests c))
                careers) \<and>
         (\<exists>ranking. mset ranking = mset recs \<and>
            sorted_wrt (\<lambda>a b. interest_match_score b \<le> interest_match_score a) ranking \<and>
            (\<forall>n. filter (\<lambda>r. interest_match_score r = n) ranking =
                 filter (\<lambda>r. interest_match_score r = n) recs) \<and>
            recommended_careers resp = take 3 ranking)) \<and>
      (\<forall>r\<in>set (recommended_careers resp). 1 \<le> interest_match_score r) \<and>
      sorted_wrt (\<lambda>a b. interest_match_score b \<le> interest_match_score a)
        (recommended_careers resp) \<and>
      length (recommended_careers resp) \<le> 3) \<and>
   (\<exists>relevant recs.
      relevant =
        get_default (map_of domain_interests (get_default (domain data) [])) technical_interests \<and>
      recs = quiz_loop relevant data careers \<and>
      map r_career recs =
        map career (filter (\<lambda>c. 0 < interest_match_of (c_interests c) relevant) careers) \<and>
      (\<exists>ranking. mset ranking = mset recs \<and>
         sorted_wrt (\<lambda>a b. interest_match_score b \<le> interest_match_score a) ranking \<and>
         (\<forall>n. filter (\<lambda>r. interest_match_score r = n) ranking =
              filter (\<lambda>r. interest_match_score r = n) recs) \<and>
         q_recommended_careers (quiz_recommend_career careers data) = take 5 ranking)) \<and>
   (\<forall>r\<in>set (q_recommended_careers (quiz_recommend_career careers data)).
      1 \<le> interest_match_score r) \<and>
   sorted_wrt (\<lambda>a b. interest_match_score b \<le> interest_match_score a)
     (q_recommended_careers (quiz_recommend_career careers data)) \<and>
   length (q_recommended_careers (quiz_recommend_career careers data)) \<le> 5"
  (is "(?D \<longrightarrow> ?DC) \<and> ?QC")
proof (rule conjI)
  show "?D \<longrightarrow> ?DC"
  proof
    assume r: ?D
    then obtain recs where l: "recommend_loop student careers = Inr recs"
      and out: "recommended_careers resp = take 3 (sort_reverse interest_match_score recs)"
      by (auto simp: recommend_career_def split: sum.splits option.splits)
    note e = recommend_loop_Inr [OF l]
    have pos: "\<forall>r\<in>set recs. 1 \<le> interest_match_score r"
      by (subst e) (auto simp: direct_entry_def)
    have names: "map r_career recs =
        map career
          (filter (\<lambda>c. 0 < interest_match_of (get_default (interests student) []) (c_interests c))
             careers)"
      by (subst e) (simp add: direct_entry_def comp_def)
    from top_ranked [OF pos, of 3] l names out show ?DC
      by simp
  qed
next
  define relevant where
    "relevant = get_default (map_of domain_interests (get_default (domain data) [])) technical_interests"
  define recs where "recs = quiz_loop relevant data careers"
  have out: "q_recommended_careers (quiz_recommend_career careers data) =
      take 5 (sort_reverse interest_match_score recs)"
    by (simp add: quiz_recommend_career_def Let_def recs_def relevant_def)
  have pos: "\<forall>r\<in>set recs. 1 \<le> interest_match_score r"
    by (auto simp: recs_def quiz_loop_eq quiz_entry_def)
  have names: "map r_career recs =
      map career (filter (\<lambda>c. 0 < interest_match_of (c_interests c) relevant) careers)"
    by (simp add: recs_def quiz_loop_eq quiz_entry_def comp_def)
  from top_ranked [OF pos, of 5] names out show ?QC
    unfolding recs_def relevant_def by simp
qed

theorem recommended_careers_ranked_witness:
  "recommend_career example_careers example_student =
     Inr \<lparr> resp_student = ''Asha'',
           recommended_careers =
             [direct_entry software_engineer 2 [''Python''],
              direct_entry data_scientist 2 [''Python''],
              direct_entry web_developer 1 [''Python'']] \<rparr> \<and>
   length [direct_entry software_engineer 2 [''Python''],
           direct_entry data_scientist 2 [''Python''],
           direct_entry web_developer 1 [''Python'']] \<le> 3 \<and>
   length (q_recommended_careers (quiz_recommend_career example_careers (example_quiz ''T''))) \<le> 5"
proof -
  have h: "recommend_career example_careers example_student =
     Inr \<lparr> resp_student = ''Asha'',
           recommended_careers =
             [direct_entry software_engineer 2 [''Python''],
              direct_entry data_scientist 2 [''Python''],
              direct_entry web_developer 1 [''Python'']] \<rparr>"
    by (simp add: recommend_career_def interest_match_of_def sort_reverse_def direct_entry_def
          example_defs)
  from recommended_careers_ranked [of example_careers example_student _ "example_quiz ''T''"] h
  show ?thesis by simp
qed

text \<open>
  Claim C2. Every entry that one of the two endpoints returns has as
  \<^verbatim>\<open>missing_skills\<close>, read as a set, the required skills of its catalog record
  without the current skills of the request, with no element twice. The quiz endpoint
  reads \<^verbatim>\<open>current_skills\<close> with the default \<^verbatim>\<open>[]\<close>.
\<close>

theorem missing_skills_set_difference:
  "(recommend_career careers student = Inr resp \<and> r \<in> set (recommended_careers resp) \<longrightarrow>
      (\<exists>skills. current_skills student = Some skills \<and>
         set (missing_skills r) = set (r_required_skills r) - set skills) \<and>
      distinct (missing_skills r) \<and>
      (\<exists>c\<in>set careers. r_career r = career c \<and> r_required_skills r = required_skills c)) \<and>
   (q \<in> set (q_recommended_careers (quiz_recommend_career careers data)) \<longrightarrow>
      set (missing_skills q) =
        set (r_required_skills q) - set (get_default (current_skills data) []) \<and>
      distinct (missing_skills q) \<and>
      (\<exists>c\<in>set careers. r_career q = career c \<and> r_required_skills q = required_skills c))"
  (is "(?D \<longrightarrow> ?DC) \<and> (?Q \<longrightarrow> ?QC)")
proof (rule conjI; rule impI)
  assume d: ?D
  then obtain recs where l: "recommend_loop student careers = Inr recs"
    and out: "recommended_careers resp = take 3 (sort_reverse interest_match_score recs)"
    by (auto simp: recommend_career_def split: sum.splits option.splits)
  from d out have "r \<in> set (sort_reverse interest_match_score recs)"
    using set_take_subset by fastforce
  then have mem: "r \<in> set recs" by (simp add: sort_reverse_set)
  then have "recs \<noteq> []" by auto
  from recommend_loop_skills [OF l this] obtain sk where sk: "current_skills student = Some sk" ..
  from mem recommend_loop_Inr [OF l] obtain c where c: "c \<in> set careers"
    and r: "r = direct_entry c
                  (interest_match_of (get_default (interests student) []) (c_interests c)) sk"
    by (auto simp: sk get_default_def)
  have "set (missing_skills r) = set (r_required_skills r) - set sk"
    by (simp add: r direct_entry_def set_difference_list_set)
  moreover have "distinct (missing_skills r)"
    by (simp add: r direct_entry_def set_difference_list_distinct)
  moreover have "r_career r = career c \<and> r_required_skills r = required_skills c"
    by (simp add: r direct_entry_def)
  ultimately show ?DC using sk c by blast
next
  assume ?Q
  then have "q \<in> set (sort_reverse interest_match_score
      (quiz_loop
         (get_default (map_of domain_interests (get_default (domain data) [])) technical_interests)
         data careers))"
    using set_take_subset by (fastforce simp: quiz_recommend_career_def Let_def)
  then obtain c where c: "c \<in> set careers"
    and q: "q = quiz_entry c (interest_match_of (c_interests c)
               (get_default (map_of domain_interests (get_default (domain data) []))
                  technical_interests))
             (get_default (current_skills data) [])"
    by (auto simp: sort_reverse_set quiz_loop_eq)
  have "set (missing_skills q) =
      set (r_required_skills q) - set (get_default (current_skills data) [])"
    by (simp add: q quiz_entry_def set_difference_list_set)
  moreover have "distinct (missing_skills q)"
    by (simp add: q quiz_entry_def set_difference_list_distinct)
  moreover have "r_career q = career c \<and> r_required_skills q = required_skills c"
    by (simp add: q quiz_entry_def)
  ultimately show ?QC using c by blast
qed

theorem missing_skills_set_difference_witness:
  "recommend_career example_careers example_student =
     Inr \<lparr> resp_student = ''Asha'',
           recommended_careers =
             [direct_entry software_engineer 2 [''Python''],
              direct_entry data_scientist 2 [''Python''],
              direct_entry web_developer 1 [''Python'']] \<rparr> \<and>
   set (missing_skills (direct_entry data_scientist 2 [''Python''])) = {''Statistics'', ''SQL''} \<and>
   distinct (missing_skills (direct_entry data_scientist 2 [''Python'']))"
proof -
  let ?out = "[direct_entry software_engineer 2 [''Python''],
               direct_entry data_scientist 2 [''Python''],
               direct_entry web_developer 1 [''Python'']]"
  have h: "recommend_career example_careers example_student =
     Inr \<lparr> resp_student = ''Asha'', recommended_careers = ?out \<rparr>"
    by (simp add: recommend_career_def interest_match_of_def sort_reverse_def direct_entry_def
          example_defs)
  have m: "direct_entry data_scientist 2 [''Python''] \<in>
             set (recommended_careers \<lparr> resp_student = ''Asha'', recommended_careers = ?out \<rparr>)"
    by simp
  from missing_skills_set_difference [THEN conjunct1, THEN mp, OF conjI, OF h m]
  have "set (missing_skills (direct_entry data_scientist 2 [''Python''])) =
          set (r_required_skills (direct_entry data_scientist 2 [''Python''])) - set [''Python''] \<and>
        distinct (missing_skills (direct_entry data_scientist 2 [''Python'']))"
    by (simp add: example_student_def)
  then have "set (missing_skills (direct_entry data_scientist 2 [''Python''])) =
          {''Statistics'', ''SQL''} \<and>
        distinct (missing_skills (direct_entry data_scientist 2 [''Python'']))"
    by (auto simp: direct_entry_def data_scientist_def)
  with h show ?thesis by simp
qed

text \<open>
  Claim C3, as stated, fails: for a code outside the five domains the response is not
  the response for \<^verbatim>\<open>T\<close>. The field \<^verbatim>\<open>domain\<close> repeats the code of the request and
  \<^verbatim>\<open>domain_name\<close> is \<^verbatim>\<open>General\<close>, where the call with \<^verbatim>\<open>T\<close> answers
  \<^verbatim>\<open>Technical\<close>.
\<close>

theorem quiz_unknown_domain_response_differs:
  "''X'' \<notin> {''T'', ''C'', ''B'', ''S'', ''R''} \<and>
   quiz_recommend_career example_careers (example_quiz ''X'') \<noteq>
     quiz_recommend_career example_careers (example_quiz ''T'') \<and>
   domain_name (quiz_recommend_career example_careers (example_quiz ''X'')) = ''General'' \<and>
   domain_name (quiz_recommend_career example_careers (example_quiz ''T'')) = ''Technical''"
proof -
  have a: "domain_name (quiz_recommend_career example_careers (example_quiz ''X'')) = ''General''"
    by (simp add: quiz_recommend_career_def Let_def get_default_def example_quiz_def
          domain_names_def)
  have b: "domain_name (quiz_recommend_career example_careers (example_quiz ''T'')) = ''Technical''"
    by (simp add: quiz_recommend_career_def Let_def get_default_def example_quiz_def
          domain_names_def)
  from a b have "quiz_recommend_career example_careers (example_quiz ''X'') \<noteq>
      quiz_recommend_career example_careers (example_quiz ''T'')"
    by auto
  with a b show ?thesis by simp
qed

text \<open>
  Claim C3, amended. For a domain code outside \<^verbatim>\<open>T\<close>, \<^verbatim>\<open>C\<close>, \<^verbatim>\<open>B\<close>, \<^verbatim>\<open>S\<close>,
  \<^verbatim>\<open>R\<close> the interest set is the technical one, so the list \<^verbatim>\<open>recommended_careers\<close>
  is the list returned for \<^verbatim>\<open>T\<close> with the same current skills. The rest of the
  response is not: \<^verbatim>\<open>domain\<close> is the code that was sent and \<^verbatim>\<open>domain_name\<close> is
  \<^verbatim>\<open>General\<close>.
\<close>

theorem quiz_unknown_domain:
  "d \<notin> {''T'', ''C'', ''B'', ''S'', ''R''} \<Longrightarrow>
   q_recommended_careers (quiz_recommend_career careers (data\<lparr>domain := Some d\<rparr>)) =
     q_recommended_careers (quiz_recommend_career careers (data\<lparr>domain := Some ''T''\<rparr>)) \<and>
   q_domain (quiz_recommend_career careers (data\<lparr>domain := Some d\<rparr>)) = d \<and>
   domain_name (quiz_recommend_career careers (data\<lparr>domain := Some d\<rparr>)) = ''General'' \<and>
   q_domain (quiz_recommend_career careers (data\<lparr>domain := Some ''T''\<rparr>)) = ''T'' \<and>
   domain_name (quiz_recommend_career careers (data\<lparr>domain := Some ''T''\<rparr>)) = ''Technical''"
proof -
  assume d: "d \<notin> {''T'', ''C'', ''B'', ''S'', ''R''}"
  then have i: "map_of domain_interests d = None" and n: "map_of domain_names d = None"
    by (auto simp: domain_interests_def domain_names_def)
  have l: "quiz_loop rel (data\<lparr>domain := Some d\<rparr>) careers =
      quiz_loop rel (data\<lparr>domain := Some ''T''\<rparr>) careers" for rel
    by (simp add: quiz_loop_eq)
  show ?thesis
    by (simp add: quiz_recommend_career_def Let_def get_default_def i n l)
       (simp add: domain_interests_def domain_names_def)
qed

theorem quiz_unknown_domain_witness:
  "''X'' \<notin> {''T'', ''C'', ''B'', ''S'', ''R''} \<and>
   q_recommended_careers (quiz_recommend_career example_careers (example_quiz ''X'')) =
     q_recommended_careers (quiz_recommend_career example_careers (example_quiz ''T'')) \<and>
   q_domain (quiz_recommend_career example_careers (example_quiz ''X'')) = ''X''"
proof -
  have h: "''X'' \<notin> {''T'', ''C'', ''B'', ''S'', ''R''}" by simp
  have e: "(example_quiz c)\<lparr>domain := Some e\<rparr> = example_quiz e" for c e
    by (simp add: example_quiz_def)
  from quiz_unknown_domain [OF h, of example_careers "example_quiz ''X''"] h show ?thesis
    by (simp add: e)
qed

section \<open>Skill gap and roadmap\<close>

lemma skill_gap_loop_no_match:
  "\<forall>c\<in>set cs. Some (career c) \<noteq> target_career s \<Longrightarrow> skill_gap_loop s cs res = Inr res"
  by (induction cs arbitrary: res) auto

lemma skill_gap_loop_keeps:
  "skill_gap_loop s cs res = Inr r \<Longrightarrow> sg_career res \<noteq> None \<Longrightarrow> sg_career r \<noteq> None"
proof (induction cs arbitrary: res)
  case Nil
  then show ?case by simp
next
  case (Cons c cs)
  show ?case
  proof (cases "Some (career c) = target_career s")
    case True
    with Cons.prems(1) obtain sk where
      "skill_gap_loop s cs (res\<lparr> sg_career := Some (career c),
          sg_missing_skills := Some (set_difference_list (required_skills c) sk) \<rparr>) = Inr r"
      by (auto split: option.splits)
    from Cons.IH [OF this] show ?thesis by simp
  next
    case False
    with Cons show ?thesis by simp
  qed
qed

lemma skill_gap_loop_match:
  "skill_gap_loop s cs res = Inr r \<Longrightarrow> \<exists>c\<in>set cs. Some (career c) = target_career s \<Longrightarrow>
   sg_career r \<noteq> None"
proof (induction cs arbitrary: res)
  case Nil
  then show ?case by simp
next
  case (Cons c cs)
  show ?case
  proof (cases "Some (career c) = target_career s")
    case True
    with Cons.prems(1) show ?thesis
      by (auto split: option.splits dest!: skill_gap_loop_keeps)
  next
    case False
    with Cons show ?thesis by auto
  qed
qed

lemma learning_roadmap_no_match:
  "\<forall>c\<in>set cs. Some (career c) \<noteq> target_career s \<Longrightarrow>
   learning_roadmap cs roadmaps s = Error_payload ''Career not found''"
  by (induction cs) auto

lemma learning_roadmap_error:
  "learning_roadmap cs roadmaps s = Error_payload e \<Longrightarrow>
   e = ''Career not found'' \<and> (\<forall>c\<in>set cs. Some (career c) \<noteq> target_career s)"
  by (induction cs) (auto simp: Let_def split: if_splits)

text \<open>
  Claim C4. When no catalog record has the target name, \<^verbatim>\<open>/skill-gap\<close> returns the
  empty dictionary and \<^verbatim>\<open>/learning-roadmap\<close> returns the dictionary with the single
  key \<^verbatim>\<open>error\<close> and the text \<^verbatim>\<open>Career not found\<close>. Neither result occurs in any
  other case: the empty dictionary and an error dictionary are returned only when no
  record matches.
\<close>

theorem career_not_found:
  "((\<forall>c\<in>set careers. Some (career c) \<noteq> target_career student) \<longrightarrow>
      skill_gap careers student = Inr empty_result \<and>
      learning_roadmap careers roadmaps student = Error_payload ''Career not found'') \<and>
   (skill_gap careers student = Inr empty_result \<longrightarrow>
      (\<forall>c\<in>set careers. Some (career c) \<noteq> target_career student)) \<and>
   (learning_roadmap careers roadmaps student = Error_payload e \<longrightarrow>
      e = ''Career not found'' \<and> (\<forall>c\<in>set careers. Some (career c) \<noteq> target_career student))"
proof (intro conjI impI)
  assume "\<forall>c\<in>set careers. Some (career c) \<noteq> target_career student"
  then show "skill_gap careers student = Inr empty_result"
    by (simp add: skill_gap_def skill_gap_loop_no_match)
next
  assume "\<forall>c\<in>set careers. Some (career c) \<noteq> target_career student"
  then show "learning_roadmap careers roadmaps student = Error_payload ''Career not found''"
    by (rule learning_roadmap_no_match)
next
  assume e: "skill_gap careers student = Inr empty_result"
  show "\<forall>c\<in>set careers. Some (career c) \<noteq> target_career student"
  proof (rule ccontr)
    assume "\<not> (\<forall>c\<in>set careers. Some (career c) \<noteq> target_career student)"
    then have "\<exists>c\<in>set careers. Some (career c) = target_career student" by blast
    from skill_gap_loop_match [OF e [unfolded skill_gap_def] this]
    show False by (simp add: empty_result_def)
  qed
next
  assume "learning_roadmap careers roadmaps student = Error_payload e"
  then show "e = ''Career not found''" by (simp add: learning_roadmap_error)
next
  assume "learning_roadmap careers roadmaps student = Error_payload e"
  then show "\<forall>c\<in>set careers. Some (career c) \<noteq> target_career student"
    using learning_roadmap_error by blast
qed

theorem career_not_found_witness:
  "skill_gap example_careers (example_student\<lparr>target_career := Some ''Astronaut''\<rparr>) =
     Inr empty_result \<and>
   learning_roadmap example_careers SKILL_ROADMAPS
       (example_student\<lparr>target_career := Some ''Astronaut''\<rparr>) =
     Error_payload ''Career not found''"
proof -
  let ?s = "example_student\<lparr>target_career := Some ''Astronaut''\<rparr>"
  have h: "\<forall>c\<in>set example_careers. Some (career c) \<noteq> target_career ?s"
    by (simp add: example_defs)
  note c = career_not_found [of example_careers ?s SKILL_ROADMAPS "''Career not found''"]
  from c [THEN conjunct1, THEN mp, OF h]
  have a: "skill_gap example_careers ?s = Inr empty_result"
    and b: "learning_roadmap example_careers SKILL_ROADMAPS ?s = Error_payload ''Career not found''"
    by simp_all
  from c [THEN conjunct2, THEN conjunct1, THEN mp, OF a]
       c [THEN conjunct2, THEN conjunct2, THEN mp, OF b] a b
  show ?thesis by simp
qed

text \<open>
  With the key \<^verbatim>\<open>current_skills\<close> present, the loop of \<^verbatim>\<open>skill_gap\<close> ends with the
  values stored at the last matching record.
\<close>

lemma skill_gap_loop_last:
  assumes "current_skills s = Some sk"
  shows "skill_gap_loop s cs res =
     Inr (case filter (\<lambda>c. Some (career c) = target_career s) cs of
            [] \<Rightarrow> res
          | m # ms \<Rightarrow> res\<lparr> sg_career := Some (career (last (m # ms))),
                          sg_missing_skills :=
                            Some (set_difference_list (required_skills (last (m # ms))) sk) \<rparr>)"
proof (induction cs arbitrary: res)
  case Nil
  then show ?case by simp
next
  case (Cons c cs)
  show ?case
  proof (cases "Some (career c) = target_career s")
    case True
    then show ?thesis
      using assms by (simp add: Cons.IH split: list.splits)
  next
    case False
    then show ?thesis by (simp add: Cons.IH)
  qed
qed

text \<open>
  Claim C5. \<^verbatim>\<open>/skill-gap\<close> scans the whole catalog and overwrites its result at every
  record with the target name, so with one or more such records (in particular with
  more than one) it returns the name of the last of them and, as \<^verbatim>\<open>missing_skills\<close>,
  the required skills of that last record without the current skills.
\<close>

theorem skill_gap_last_match:
  assumes "filter (\<lambda>c. Some (career c) = target_career student) careers = ms"
    and "ms \<noteq> []"
    and "current_skills student = Some skills"
  shows "\<exists>missing. skill_gap careers student =
             Inr \<lparr> sg_career = Some (career (last ms)), sg_missing_skills = Some missing \<rparr> \<and>
           set missing = set (required_skills (last ms)) - set skills \<and> distinct missing"
proof -
  from assms(1,2) obtain m ms'
    where ms: "filter (\<lambda>c. Some (career c) = target_career student) careers = m # ms'"
      and l: "ms = m # ms'"
    by (cases ms) auto
  have "skill_gap careers student =
     Inr \<lparr> sg_career = Some (career (last ms)),
           sg_missing_skills = Some (set_difference_list (required_skills (last ms)) skills) \<rparr>"
    unfolding skill_gap_def skill_gap_loop_last [OF assms(3)] ms l
    by (simp add: empty_result_def)
  then show ?thesis
    by (simp add: set_difference_list_set set_difference_list_distinct)
qed

theorem skill_gap_last_match_witness:
  "filter (\<lambda>c. Some (career c) = target_career example_student) example_careers =
     [software_engineer, software_engineer_2] \<and>
   [software_engineer, software_engineer_2] \<noteq> [] \<and>
   current_skills example_student = Some [''Python''] \<and>
   skill_gap example_careers example_student =
     Inr \<lparr> sg_career = Some ''Software Engineer'', sg_missing_skills = Some [''Java'', ''Git''] \<rparr> \<and>
   set [''Java'', ''Git''] = set (required_skills software_engineer_2) - set [''Python'']"
proof -
  have f: "filter (\<lambda>c. Some (career c) = target_career example_student) example_careers =
     [software_engineer, software_engineer_2]"
    by (simp add: example_defs)
  have n: "[software_engineer, software_engineer_2] \<noteq> []" by simp
  have s: "current_skills example_student = Some [''Python'']" by (simp add: example_defs)
  have v: "skill_gap example_careers example_student =
     Inr \<lparr> sg_career = Some ''Software Engineer'', sg_missing_skills = Some [''Java'', ''Git''] \<rparr>"
    by (simp add: skill_gap_def empty_result_def set_difference_list_def example_defs)
  from skill_gap_last_match [OF f n s] v
  have "set [''Java'', ''Git''] = set (required_skills software_engineer_2) - set [''Python'']"
    by auto
  with f n s v show ?thesis by simp
qed

text \<open>
  The dictionary built by the inner loop of \<^verbatim>\<open>learning_roadmap\<close>: every skill of the
  list is a key, with the table's entry or the three one-item lists.
\<close>

lemma roadmap_loop_lookup:
  "roadmap_loop roadmaps skills roadmap k =
     (if k \<in> set skills
      then Some (case map_of roadmaps k of
                   Some entry \<Rightarrow> entry
                 | None \<Rightarrow> \<lparr> beginner = [''Learn basics of '' @ k],
                              intermediate = [''Practice '' @ k],
                              advanced = [''Build projects using '' @ k] \<rparr>)
      else roadmap k)"
  by (induction skills arbitrary: roadmap) (auto split: option.splits)

lemma roadmap_loop_dom: "dom (roadmap_loop roadmaps skills roadmap) = dom roadmap \<union> set skills"
  by (auto simp: dom_def roadmap_loop_lookup)

lemma learning_roadmap_find:
  "find (\<lambda>c. Some (career c) = target_career s) cs = Some c \<Longrightarrow>
   learning_roadmap cs roadmaps s =
     Roadmap \<lparr> rm_career = target_career s,
               rm_missing_skills =
                 set_difference_list (required_skills c) (get_default (current_skills s) []),
               learning_roadmap_of =
                 roadmap_loop roadmaps
                   (set_difference_list (required_skills c) (get_default (current_skills s) []))
                   Map.empty \<rparr>"
  by (induction cs) (auto simp: Let_def split: if_splits)

lemma sublist_suffix_text: "sublist skill (text @ skill)"
  by simp

text \<open>
  Claim C6. When the catalog has a record with the target name, \<^verbatim>\<open>/learning-roadmap\<close>
  returns, for the first such record \<open>c\<close>, the missing skills of \<open>c\<close> and a roadmap
  whose keys are exactly the missing skills. A missing skill that is not a key of the
  skill roadmap table gets one beginner, one intermediate and one advanced item, each a
  fixed text followed by the skill name; a missing skill in the table gets the table's
  entry.
\<close>

theorem learning_roadmap_keys:
  assumes "find (\<lambda>c. Some (career c) = target_career student) careers = Some c"
  shows "\<exists>r. learning_roadmap careers roadmaps student = Roadmap r \<and>
           rm_career r = Some (career c) \<and>
           set (rm_missing_skills r) =
             set (required_skills c) - set (get_default (current_skills student) []) \<and>
           distinct (rm_missing_skills r) \<and>
           dom (learning_roadmap_of r) = set (rm_missing_skills r) \<and>
           (\<forall>skill\<in>set (rm_missing_skills r).
              map_of roadmaps skill = None \<longrightarrow>
                learning_roadmap_of r skill =
                  Some \<lparr> beginner = [''Learn basics of '' @ skill],
                         intermediate = [''Practice '' @ skill],
                         advanced = [''Build projects using '' @ skill] \<rparr> \<and>
                sublist skill (''Learn basics of '' @ skill) \<and>
                sublist skill (''Practice '' @ skill) \<and>
                sublist skill (''Build projects using '' @ skill)) \<and>
           (\<forall>skill\<in>set (rm_missing_skills r).
              \<forall>entry. map_of roadmaps skill = Some entry \<longrightarrow>
                learning_roadmap_of r skill = Some entry)"
proof -
  from assms have t: "target_career student = Some (career c)"
    by (auto simp: find_Some_iff)
  show ?thesis
    unfolding learning_roadmap_find [OF assms]
    by (simp add: t set_difference_list_set set_difference_list_distinct roadmap_loop_dom
          roadmap_loop_lookup
          sublist_suffix_text [of _ "''Learn basics of ''", simplified]
          sublist_suffix_text [of _ "''Practice ''", simplified]
          sublist_suffix_text [of _ "''Build projects using ''", simplified])
qed

theorem learning_roadmap_keys_witness:
  "find (\<lambda>c. Some (career c) =
            target_career (example_student\<lparr>target_career := Some ''Data Scientist''\<rparr>))
     example_careers = Some data_scientist \<and>
   learning_roadmap example_careers SKILL_ROADMAPS
       (example_student\<lparr>target_career := Some ''Data Scientist''\<rparr>) =
     Roadmap \<lparr> rm_career = Some ''Data Scientist'',
               rm_missing_skills = [''Statistics'', ''SQL''],
               learning_roadmap_of =
                 [''Statistics'' \<mapsto>
                    \<lparr> beginner = [''Learn basics of Statistics''],
                      intermediate = [''Practice Statistics''],
                      advanced = [''Build projects using Statistics''] \<rparr>,
                  ''SQL'' \<mapsto>
                    \<lparr> beginner = [''SELECT, INSERT, UPDATE'', ''WHERE clause''],
                      intermediate = [''JOINs'', ''Subqueries''],
                      advanced = [''Query optimization'', ''Indexing''] \<rparr>] \<rparr> \<and>
   dom [''Statistics'' \<mapsto>
          \<lparr> beginner = [''Learn basics of Statistics''],
            intermediate = [''Practice Statistics''],
            advanced = [''Build projects using Statistics''] \<rparr>,
        ''SQL'' \<mapsto>
          \<lparr> beginner = [''SELECT, INSERT, UPDATE'', ''WHERE clause''],
            intermediate = [''JOINs'', ''Subqueries''],
            advanced = [''Query optimization'', ''Indexing''] \<rparr>] = set [''Statistics'', ''SQL'']"
proof -
  let ?s = "example_student\<lparr>target_career := Some ''Data Scientist''\<rparr>"
  have f: "find (\<lambda>c. Some (career c) = target_career ?s) example_careers = Some data_scientist"
    by (simp add: example_defs)
  have v: "learning_roadmap example_careers SKILL_ROADMAPS ?s =
     Roadmap \<lparr> rm_career = Some ''Data Scientist'',
               rm_missing_skills = [''Statistics'', ''SQL''],
               learning_roadmap_of =
                 [''Statistics'' \<mapsto>
                    \<lparr> beginner = [''Learn basics of Statistics''],
                      intermediate = [''Practice Statistics''],
                      advanced = [''Build projects using Statistics''] \<rparr>,
                  ''SQL'' \<mapsto>
                    \<lparr> beginner = [''SELECT, INSERT, UPDATE'', ''WHERE clause''],
                      intermediate = [''JOINs'', ''Subqueries''],
                      advanced = [''Query optimization'', ''Indexing''] \<rparr>] \<rparr>"
    by (simp add: example_defs set_difference_list_def get_default_def SKILL_ROADMAPS_def)
  from learning_roadmap_keys [OF f, of SKILL_ROADMAPS] v f show ?thesis
    by auto
qed

section \<open>The chat responder\<close>

lemma words_loop_eq:
  "words_loop cat ws q = (if \<exists>w\<in>set ws. sublist w q then Some cat else None)"
  by (induction ws) auto

lemma category_loop_find:
  "\<forall>(cat, ws)\<in>set kws. cat \<noteq> [] \<Longrightarrow>
   (case category_loop kws q of
      None \<Rightarrow> ''general''
    | Some cat \<Rightarrow> if cat \<noteq> [] then cat else ''general'') =
   (case find (\<lambda>(cat, ws). \<exists>w\<in>set ws. sublist w q) kws of
      None \<Rightarrow> ''general''
    | Some (cat, ws) \<Rightarrow> cat)"
  by (induction kws) (auto simp: words_loop_eq Let_def)

lemma keywords_dict_names:
  "map fst keywords_dict =
     [''salary'', ''skills'', ''growth'', ''job'', ''education'', ''startup'', ''remote'']"
  by (simp add: keywords_dict_def)

lemma keywords_dict_nonempty: "\<forall>(cat, ws)\<in>set keywords_dict. cat \<noteq> []"
  by (simp add: keywords_dict_def)

lemma detect_category_find:
  "detect_category q =
     (case find (\<lambda>(cat, ws). \<exists>w\<in>set ws. sublist w q) keywords_dict of
        None \<Rightarrow> ''general''
      | Some (cat, ws) \<Rightarrow> cat)"
  unfolding detect_category_def by (rule category_loop_find [OF keywords_dict_nonempty])

text \<open>With a string or \<^verbatim>\<open>null\<close> as career, computing \<^verbatim>\<open>career_lower\<close> cannot fail.\<close>

lemma career_lower_Inr:
  "(if truthy c then py_lower c else Inr []) =
     Inr (case c of JString s \<Rightarrow> lower s | JNull \<Rightarrow> [])"
  by (cases c) auto

lemma response_of_text:
  "get_default (question data) (JString []) = JString q \<Longrightarrow>
   get_rule_based_response data =
     Inr (render (detect_category (lower q))
            (find_guidance (case get_default (chat_career data) (JString []) of
                              JString s \<Rightarrow> lower s | JNull \<Rightarrow> []) career_guidance)
            (get_default (chat_career data) (JString []))
            (get_default (chat_missing_skills data) []))"
  by (simp add: get_rule_based_response_def Let_def career_lower_Inr)

text \<open>Every answer starts with a pictograph, so none is empty.\<close>

lemma render_nonempty: "render category guidance career_val skills \<noteq> []"
  by (simp add: render_def salary_overview_def salary_information_def skills_to_develop_def
        essential_skills_def skills_development_def career_growth_path_def career_growth_in_def
        job_search_tips_def educational_path_def startup_guidance_for_def remote_work_in_def
        career_overview_def career_guidance_for_def career_guidance_assistant_def
        sym_money_def sym_target_def sym_chart_def sym_briefcase_def sym_books_def
        sym_rocket_def sym_house_def sym_robot_def split: option.splits)

text \<open>
  When the key \<^verbatim>\<open>question\<close> is absent or holds a string, the responder returns a
  non-empty answer, whatever the other keys hold.
\<close>

lemma response_nonempty:
  "question data \<noteq> Some JNull \<Longrightarrow>
   \<exists>answer. get_rule_based_response data = Inr answer \<and> answer \<noteq> []"
proof -
  assume "question data \<noteq> Some JNull"
  then obtain q where "get_default (question data) (JString []) = JString q"
    by (cases "question data") (auto simp: get_default_def intro: json_text.exhaust)
  from response_of_text [OF this] show ?thesis
    by (simp add: render_nonempty)
qed

text \<open>
  Claim C7 says that the fallback responder returns a non-empty string for every chat
  context and never raises. The responder guards \<^verbatim>\<open>career\<close> against \<^verbatim>\<open>None\<close>
  (\<^verbatim>\<open>career.lower() if career else ""\<close>) but calls \<^verbatim>\<open>lower\<close> on \<^verbatim>\<open>question\<close>
  unguarded: the default of \<^verbatim>\<open>data.get("question", "")\<close> only covers an absent key.
  For the body \<^verbatim>\<open>{"question": null, "career": "Software Engineer", "missing_skills": []}\<close>
  the responder raises \<^verbatim>\<open>AttributeError\<close>, and so does the handler, which calls
  it outside its \<^verbatim>\<open>try\<close> block, when the external service has failed.
\<close>

theorem null_question_raises:
  "get_rule_based_response
     \<lparr> question = Some JNull, chat_career = Some (JString ''Software Engineer''),
       chat_missing_skills = Some [] \<rparr> = Inl AttributeError \<and>
   career_chat None
     \<lparr> question = Some JNull, chat_career = Some (JString ''Software Engineer''),
       chat_missing_skills = Some [] \<rparr> = Inl AttributeError"
  by (simp add: get_rule_based_response_def career_chat_def get_default_def)

text \<open>
  Claim C8. The category of a question is decided on the lower-cased question by the
  seven keyword lists in the order salary, skills, growth, job, education, startup,
  remote: it is the name of the first list of which some keyword occurs in the
  question as a substring, and \<^verbatim>\<open>general\<close> when no keyword of any list occurs. The
  answer of the responder is the one rendered for that category.
\<close>

theorem detect_category_first_match:
  "detect_category (lower q) =
     (case find (\<lambda>(cat, ws). \<exists>w\<in>set ws. sublist w (lower q)) keywords_dict of
        None \<Rightarrow> ''general''
      | Some (cat, ws) \<Rightarrow> cat) \<and>
   map fst keywords_dict =
     [''salary'', ''skills'', ''growth'', ''job'', ''education'', ''startup'', ''remote''] \<and>
   detect_category (lower q) \<in>
     {''salary'', ''skills'', ''growth'', ''job'', ''education'', ''startup'', ''remote'',
      ''general''} \<and>
   (question data = Some (JString q) \<longrightarrow>
      (\<exists>guidance. get_rule_based_response data =
         Inr (render (detect_category (lower q)) guidance
                (get_default (chat_career data) (JString []))
                (get_default (chat_missing_skills data) []))))"
proof (intro conjI)
  show d: "detect_category (lower q) =
     (case find (\<lambda>(cat, ws). \<exists>w\<in>set ws. sublist w (lower q)) keywords_dict of
        None \<Rightarrow> ''general''
      | Some (cat, ws) \<Rightarrow> cat)"
    by (rule detect_category_find)
  show "map fst keywords_dict =
     [''salary'', ''skills'', ''growth'', ''job'', ''education'', ''startup'', ''remote'']"
    by (rule keywords_dict_names)
  show "detect_category (lower q) \<in>
     {''salary'', ''skills'', ''growth'', ''job'', ''education'', ''startup'', ''remote'',
      ''general''}"
  proof (cases "find (\<lambda>(cat, ws). \<exists>w\<in>set ws. sublist w (lower q)) keywords_dict")
    case None
    then show ?thesis by (simp add: d)
  next
    case (Some p)
    then have "p \<in> set keywords_dict" by (rule find_Some_set)
    then have "fst p \<in> set (map fst keywords_dict)" by simp
    then show ?thesis
      unfolding keywords_dict_names by (simp add: d Some split: prod.splits) auto
  qed
  show "question data = Some (JString q) \<longrightarrow>
      (\<exists>guidance. get_rule_based_response data =
         Inr (render (detect_category (lower q)) guidance
                (get_default (chat_career data) (JString []))
                (get_default (chat_missing_skills data) [])))"
    by (auto simp: response_of_text get_default_def)
qed

theorem detect_category_first_match_witness:
  "detect_category (lower ''What SALARY can I expect for this job?'') = ''salary'' \<and>
   find (\<lambda>(cat, ws). \<exists>w\<in>set ws. sublist w (lower ''What SALARY can I expect for this job?''))
     keywords_dict =
     Some (''salary'', [''salary'', ''package'', ''money'', ''earn'', ''compensation'', ''ctc'']) \<and>
   sublist ''job'' (lower ''What SALARY can I expect for this job?'')"
proof -
  let ?q = "''What SALARY can I expect for this job?''"
  have l: "lower ?q = ''what salary can i expect for this job?''"
    by code_simp
  have f: "find (\<lambda>(cat, ws). \<exists>w\<in>set ws. sublist w (lower ?q)) keywords_dict =
     Some (''salary'', [''salary'', ''package'', ''money'', ''earn'', ''compensation'', ''ctc''])"
    unfolding l by (simp add: keywords_dict_def sublist_code)
  have j: "sublist ''job'' (lower ?q)"
    unfolding l by (simp add: sublist_code)
  from detect_category_first_match [of ?q, THEN conjunct1] f j show ?thesis by simp
qed

text \<open>
  Claim C10. When the key \<^verbatim>\<open>career\<close> is absent or holds the empty string, the
  lower-cased career name is empty and occurs in every key, so the lookup succeeds
  at the first entry of \<^verbatim>\<open>career_guidance\<close>, \<^verbatim>\<open>software engineer\<close>, and every
  answer is rendered with that guidance. If moreover no keyword of any category occurs
  in the lower-cased question, the answer is the general overview with the software
  engineer's description and not the generic assistant text.
\<close>

theorem empty_career_guidance:
  assumes "chat_career data = None \<or> chat_career data = Some (JString [])"
    and "get_default (question data) (JString []) = JString q"
  shows "\<exists>g. hd career_guidance = (''software engineer'', g) \<and>
           find_guidance (lower []) career_guidance = Some g \<and>
           get_rule_based_response data =
             Inr (render (detect_category (lower q)) (Some g) (JString [])
                    (get_default (chat_missing_skills data) [])) \<and>
           ((\<forall>(cat, ws)\<in>set keywords_dict. \<forall>w\<in>set ws. \<not> sublist w (lower q)) \<longrightarrow>
              get_rule_based_response data = Inr (career_overview [] g) \<and>
              career_overview [] g \<noteq> career_guidance_assistant)"
proof -
  obtain g rest where cg: "career_guidance = (''software engineer'', g) # rest"
    by (simp add: career_guidance_def)
  from assms(1) have c: "get_default (chat_career data) (JString []) = JString []"
    by (auto simp: get_default_def)
  have r: "get_rule_based_response data =
             Inr (render (detect_category (lower q)) (Some g) (JString [])
                    (get_default (chat_missing_skills data) []))"
    by (simp add: response_of_text [OF assms(2)] c cg)
  have n: "career_overview [] g \<noteq> career_guidance_assistant"
    by (simp add: career_overview_def career_guidance_assistant_def sym_robot_def)
  have "get_rule_based_response data = Inr (career_overview [] g)"
    if "\<forall>(cat, ws)\<in>set keywords_dict. \<forall>w\<in>set ws. \<not> sublist w (lower q)"
  proof -
    from that have "find (\<lambda>(cat, ws). \<exists>w\<in>set ws. sublist w (lower q)) keywords_dict = None"
      by (auto simp: find_None_iff)
    then have "detect_category (lower q) = ''general''"
      by (simp add: detect_category_find)
    then show ?thesis by (simp add: r render_def)
  qed
  with r n show ?thesis
    by (simp add: cg)
qed

theorem empty_career_guidance_witness:
  "fst (hd career_guidance) = ''software engineer'' \<and>
   find_guidance (lower []) career_guidance = Some (snd (hd career_guidance)) \<and>
   get_rule_based_response
     \<lparr> question = Some (JString ''Hello there''), chat_career = None,
       chat_missing_skills = None \<rparr> =
     Inr (career_overview [] (snd (hd career_guidance)))"
proof -
  let ?d = "\<lparr> question = Some (JString ''Hello there''), chat_career = None,
              chat_missing_skills = None \<rparr>"
  have a: "chat_career ?d = None \<or> chat_career ?d = Some (JString [])" by simp
  have b: "get_default (question ?d) (JString []) = JString ''Hello there''"
    by (simp add: get_default_def)
  have l: "lower ''Hello there'' = ''hello there''"
    by code_simp
  have k: "\<forall>(cat, ws)\<in>set keywords_dict. \<forall>w\<in>set ws. \<not> sublist w (lower ''Hello there'')"
    unfolding l by (simp add: keywords_dict_def sublist_code)
  from empty_career_guidance [OF a b] k show ?thesis
    by auto
qed

section \<open>The tables are never written\<close>

lemma untouched_ret: "untouched n (ret x)"
  by (simp add: untouched_def ret_def)

lemma untouched_throw: "untouched n (throw e)"
  by (simp add: untouched_def throw_def)

lemma untouched_andthen:
  assumes "untouched n m" and "\<And>x. untouched n (f x)"
  shows "untouched n (andthen m f)"
proof (unfold untouched_def, intro allI impI)
  fix h :: heap
  assume n: "n \<le> length h"
  obtain r h' where m: "m h = (r, h')" by (cases "m h")
  from assms(1) n m have h': "n \<le> length h'" "take n h' = take n h"
    by (auto simp: untouched_def)
  show "n \<le> length (snd (andthen m f h)) \<and> take n (snd (andthen m f h)) = take n h"
  proof (cases r)
    case (Inl e)
    with m h' show ?thesis by (simp add: andthen_def)
  next
    case (Inr x)
    from assms(2) [of x] h' have "n \<le> length (snd (f x h')) \<and> take n (snd (f x h')) = take n h'"
      by (simp add: untouched_def)
    with m Inr h' show ?thesis by (simp add: andthen_def)
  qed
qed

lemma untouched_alloc: "untouched n (alloc obj)"
  by (simp add: untouched_def alloc_def)

text \<open>The address of a new object lies beyond every object that existed before.\<close>

lemma untouched_alloc_andthen:
  assumes "\<And>a. n \<le> a \<Longrightarrow> untouched n (f a)"
  shows "untouched n (andthen (alloc obj) f)"
proof (unfold untouched_def, intro allI impI)
  fix h :: heap
  assume n: "n \<le> length h"
  from assms [OF n] n
  have "n \<le> length (snd (f (length h) (h @ [obj]))) \<and>
        take n (snd (f (length h) (h @ [obj]))) = take n (h @ [obj])"
    by (simp add: untouched_def)
  with n show "n \<le> length (snd (andthen (alloc obj) f h)) \<and>
      take n (snd (andthen (alloc obj) f h)) = take n h"
    by (simp add: andthen_def alloc_def)
qed

lemma untouched_load: "untouched n (load v)"
  by (simp add: untouched_def load_def split: pyval.splits)

lemma untouched_store: "n \<le> a \<Longrightarrow> untouched n (store a obj)"
  by (simp add: untouched_def store_def)

lemma store_touches:
  "a < length h \<Longrightarrow> h ! a \<noteq> obj \<Longrightarrow> \<not> untouched (length h) (store a obj)"
proof
  assume a: "a < length h" and d: "h ! a \<noteq> obj" and u: "untouched (length h) (store a obj)"
  from u have "length h \<le> length h \<longrightarrow> take (length h) (snd (store a obj h)) = take (length h) h"
    unfolding untouched_def by blast
  then have "h[a := obj] = h" by (simp add: store_def)
  then have "h[a := obj] ! a = h ! a" by simp
  with a d show False by simp
qed

lemma untouched_load_list: "untouched n (load_list v)"
  unfolding load_list_def
  by (rule untouched_andthen, rule untouched_load)
     (simp add: untouched_ret untouched_throw split: pyobj.splits)

lemma untouched_load_dict: "untouched n (load_dict v)"
  unfolding load_dict_def
  by (rule untouched_andthen, rule untouched_load)
     (simp add: untouched_ret untouched_throw split: pyobj.splits)

lemma untouched_subscript: "untouched n (subscript d key)"
  unfolding subscript_def
  by (rule untouched_andthen, rule untouched_load_dict)
     (simp add: untouched_ret untouched_throw split: option.splits)

lemma untouched_get_or: "untouched n (get_or d key v)"
  unfolding get_or_def
  by (rule untouched_andthen, rule untouched_load_dict) (rule untouched_ret)

lemma untouched_get_or_new_list: "untouched n (get_or_new_list d key)"
  unfolding get_or_new_list_def
  by (rule untouched_andthen, rule untouched_alloc) (rule untouched_get_or)

lemma untouched_strings: "untouched n (strings v)"
  unfolding strings_def
  by (rule untouched_andthen, rule untouched_load_list)
     (simp add: untouched_ret untouched_throw split: option.splits)

lemma untouched_list_append: "n \<le> a \<Longrightarrow> untouched n (list_append a v)"
  unfolding list_append_def
  by (rule untouched_andthen, rule untouched_load_list) (rule untouched_store)

lemma untouched_setitem: "n \<le> a \<Longrightarrow> untouched n (setitem a key v)"
  unfolding setitem_def
  by (rule untouched_andthen, rule untouched_load_dict) (rule untouched_store)

lemma untouched_required_key: "untouched n (required_key key v)"
  by (simp add: required_key_def untouched_ret untouched_throw split: option.splits)

lemma untouched_if:
  "untouched n p \<Longrightarrow> untouched n q \<Longrightarrow> untouched n (if b then p else q)"
  by simp

lemmas untouched_reads =
  untouched_ret untouched_throw untouched_load untouched_load_list untouched_load_dict
  untouched_subscript untouched_get_or untouched_get_or_new_list untouched_strings
  untouched_required_key untouched_alloc

lemma untouched_missing_list: "untouched n current \<Longrightarrow> untouched n (missing_list c current)"
  unfolding missing_list_def
  by (intro untouched_andthen untouched_reads)

lemma untouched_entry_fields: "untouched n (entry_fields c interest_match missing)"
  unfolding entry_fields_def
  by (intro untouched_andthen untouched_reads)

lemma untouched_recommend_loop:
  "n \<le> recs \<Longrightarrow> untouched n (recommend_loop_heap student recs cs)"
proof (induction cs)
  case Nil
  show ?case by (simp add: untouched_ret)
next
  case (Cons c cs)
  then show ?case
    by (simp del: One_nat_def)
       (intro untouched_andthen untouched_if untouched_reads untouched_missing_list
          untouched_entry_fields untouched_list_append; assumption?)
qed

lemma untouched_quiz_loop:
  "n \<le> recs \<Longrightarrow> untouched n (quiz_loop_heap rel data recs cs)"
proof (induction cs)
  case Nil
  show ?case by (simp add: untouched_ret)
next
  case (Cons c cs)
  then show ?case
    by (simp del: One_nat_def)
       (intro untouched_andthen untouched_if untouched_reads untouched_missing_list
          untouched_entry_fields untouched_list_append; assumption?)
qed

lemma untouched_scores: "untouched n (scores xs)"
proof (induction xs)
  case Nil
  show ?case by (simp add: untouched_ret)
next
  case (Cons x xs)
  have "untouched n (case v of VInt k \<Rightarrow> andthen (scores xs) (\<lambda>ns. ret (k # ns))
                     | _ \<Rightarrow> throw Ill_typed)" for v
    by (cases v) (auto intro!: untouched_andthen untouched_reads Cons)
  then show ?case
    by (auto intro!: untouched_andthen untouched_reads)
qed

lemma untouched_sort_by_score: "n \<le> a \<Longrightarrow> untouched n (sort_by_score a)"
  unfolding sort_by_score_def
  by (intro untouched_andthen untouched_reads untouched_scores untouched_store)

lemma untouched_slice: "untouched n (slice a k)"
  unfolding slice_def
  by (intro untouched_andthen untouched_reads)

lemma untouched_recommend_career: "untouched n (recommend_career_heap careers student)"
  unfolding recommend_career_heap_def
  by (rule untouched_alloc_andthen)
     (intro untouched_andthen untouched_reads untouched_recommend_loop untouched_sort_by_score
        untouched_slice)

lemma untouched_quiz_recommend_career: "untouched n (quiz_recommend_career_heap careers data)"
  unfolding quiz_recommend_career_heap_def Let_def
  by (rule untouched_alloc_andthen)
     (intro untouched_andthen untouched_reads untouched_quiz_loop untouched_sort_by_score
        untouched_slice)

lemma untouched_skill_gap_loop:
  "n \<le> result \<Longrightarrow> untouched n (skill_gap_loop_heap student result cs)"
proof (induction cs)
  case Nil
  show ?case by (simp add: untouched_ret)
next
  case (Cons c cs)
  then show ?case
    by (simp del: One_nat_def)
       (intro untouched_andthen untouched_if untouched_reads untouched_missing_list
          untouched_setitem; assumption?)
qed

lemma untouched_skill_gap: "untouched n (skill_gap_heap careers student)"
  unfolding skill_gap_heap_def
  by (rule untouched_alloc_andthen)
     (intro untouched_andthen untouched_reads untouched_skill_gap_loop)

lemma untouched_roadmap_loop:
  "n \<le> roadmap \<Longrightarrow> untouched n (roadmap_loop_heap roadmaps roadmap skills)"
proof (induction skills)
  case Nil
  show ?case by (simp add: untouched_ret)
next
  case (Cons skill skills)
  have "untouched n
      (case map_of table skill of
         Some entry \<Rightarrow> setitem roadmap skill entry
       | None \<Rightarrow>
           andthen (alloc (OList [VStr (''Learn basics of '' @ skill)])) (\<lambda>b.
           andthen (alloc (OList [VStr (''Practice '' @ skill)])) (\<lambda>i.
           andthen (alloc (OList [VStr (''Build projects using '' @ skill)])) (\<lambda>a.
           andthen (alloc (ODict [(''beginner'', VRef b), (''intermediate'', VRef i),
                                  (''advanced'', VRef a)])) (\<lambda>entry.
           setitem roadmap skill (VRef entry))))))" for table
    using Cons.prems
    by (cases "map_of table skill")
       (auto simp del: append.simps intro!: untouched_andthen untouched_reads untouched_setitem)
  with Cons show ?case
    by (simp del: One_nat_def append.simps)
       (intro untouched_andthen untouched_reads; assumption?)
qed

lemma untouched_learning_roadmap_loop:
  "untouched n (learning_roadmap_loop_heap roadmaps student cs)"
proof (induction cs)
  case Nil
  show ?case by (simp add: untouched_ret)
next
  case (Cons c cs)
  have "untouched n
      (andthen (missing_list c (ret (get_default (current_skills student) []))) (\<lambda>missing.
       andthen (alloc (ODict [])) (\<lambda>roadmap.
       andthen (strings (VRef missing)) (\<lambda>skills.
       andthen (roadmap_loop_heap roadmaps roadmap skills) (\<lambda>_.
       andthen (alloc (ODict [(''career'', optional_text (target_career student)),
                              (''missing_skills'', VRef missing),
                              (''learning_roadmap'', VRef roadmap)])) (\<lambda>response.
       ret (Some (VRef response))))))))"
    by (rule untouched_andthen, intro untouched_missing_list untouched_reads,
        rule untouched_alloc_andthen)
       (intro untouched_andthen untouched_reads untouched_roadmap_loop)
  note body = this
  show ?case
    unfolding learning_roadmap_loop_heap.simps
    by (rule untouched_andthen, rule untouched_subscript, rule untouched_if, rule body,
        rule Cons)
qed

lemma untouched_learning_roadmap:
  "untouched n (learning_roadmap_heap careers roadmaps student)"
proof -
  have "untouched n
      (case returned of
         Some response \<Rightarrow> ret response
       | None \<Rightarrow>
           andthen (alloc (ODict [(''error'', VStr ''Career not found'')])) (\<lambda>response.
           ret (VRef response)))" for returned
    by (cases returned) (auto intro!: untouched_andthen untouched_reads)
  then show ?thesis
    unfolding learning_roadmap_heap_def
    by (intro untouched_andthen untouched_reads untouched_learning_roadmap_loop)
qed

lemma untouched_career_chat: "untouched n (career_chat_heap llm data)"
  unfolding career_chat_heap_def
  by (intro untouched_andthen untouched_reads)
     (simp add: untouched_ret untouched_throw split: sum.splits)

lemma untouched_handle: "untouched n (handle careers roadmaps r)"
  by (cases r)
     (simp_all add: untouched_recommend_career untouched_quiz_recommend_career
        untouched_skill_gap untouched_learning_roadmap untouched_career_chat)

lemma untouched_nth:
  assumes "untouched (length h) m" and "a < length h"
  shows "snd (m h) ! a = h ! a"
proof -
  from assms(1) have l: "length h \<le> length (snd (m h))"
    and t: "take (length h) (snd (m h)) = h"
    by (simp_all add: untouched_def)
  from assms(2) have "snd (m h) ! a = take (length h) (snd (m h)) ! a" by simp
  with t show ?thesis by simp
qed

lemma serve_prefix:
  "length h \<le> length (serve careers roadmaps rs h) \<and>
   take (length h) (serve careers roadmaps rs h) = h"
proof (induction rs arbitrary: h)
  case Nil
  show ?case by simp
next
  case (Cons r rs)
  let ?h = "snd (handle careers roadmaps r h)"
  from untouched_handle [of "length h" careers roadmaps r]
  have l: "length h \<le> length ?h" and t: "take (length h) ?h = h"
    by (simp_all add: untouched_def)
  from Cons [of ?h] have l': "length ?h \<le> length (serve careers roadmaps rs ?h)"
    and t': "take (length ?h) (serve careers roadmaps rs ?h) = ?h"
    by simp_all
  from l t' have "take (length h) (serve careers roadmaps rs ?h) = take (length h) ?h"
    by (metis min.absorb_iff1 take_take)
  with l l' t show ?case by simp
qed

text \<open>
  Claim C9. A request changes no object that exists when it arrives: the handlers
  append to, sort and assign to the lists and dictionaries they have created
  themselves, and only read everything else. So the catalog list, its records and
  their lists, and the skill roadmap table with its entries hold after the request
  what they held before it, whether the handler returns or raises, and the heap only
  grows. The same is true after any sequence of requests since startup.
\<close>

theorem tables_unchanged:
  "length h \<le> length (snd (handle careers roadmaps r h)) \<and>
   (\<forall>a<length h. snd (handle careers roadmaps r h) ! a = h ! a) \<and>
   length h \<le> length (serve careers roadmaps rs h) \<and>
   (\<forall>a<length h. serve careers roadmaps rs h ! a = h ! a)"
proof (intro conjI allI impI)
  note u = untouched_handle [of "length h" careers roadmaps r]
  from u show "length h \<le> length (snd (handle careers roadmaps r h))"
    by (simp add: untouched_def)
  show "snd (handle careers roadmaps r h) ! a = h ! a" if "a < length h" for a
    using u that by (rule untouched_nth)
  show "length h \<le> length (serve careers roadmaps rs h)"
    by (simp add: serve_prefix)
  show "serve careers roadmaps rs h ! a = h ! a" if "a < length h" for a
  proof -
    from that have "serve careers roadmaps rs h ! a =
        take (length h) (serve careers roadmaps rs h) ! a" by simp
    then show ?thesis by (simp add: serve_prefix)
  qed
qed

theorem tables_unchanged_witness:
  "(3::nat) < length example_heap \<and>
   snd (handle 3 8 (Post_recommend_career example_student) example_heap) ! 3 = OList [VRef 2] \<and>
   (8::nat) < length example_heap \<and>
   snd (handle 3 8 (Post_recommend_career example_student) example_heap) ! 8 =
     ODict [(''Python'', VRef 7)] \<and>
   snd (handle 3 8 (Post_recommend_career example_student) example_heap) ! 9 = OList [VRef 17] \<and>
   length (snd (handle 3 8 (Post_recommend_career example_student) example_heap)) = 20 \<and>
   length example_heap = 9"
proof -
  let ?h = "snd (handle 3 8 (Post_recommend_career example_student) example_heap)"
  have l: "length example_heap = 9" by (simp add: example_heap_def)
  note t = tables_unchanged [of example_heap 3 8 "Post_recommend_career example_student" "[]"]
  from t l have "?h ! 3 = example_heap ! 3" and "?h ! 8 = example_heap ! 8"
    by simp_all
  then have a: "?h ! 3 = OList [VRef 2]" and b: "?h ! 8 = ODict [(''Python'', VRef 7)]"
    by (simp_all add: example_heap_def)
  have c: "?h ! 9 = OList [VRef 17]" by code_simp
  have d: "length ?h = 20" by code_simp
  from a b c d l show ?thesis by simp
qed

end
